theory Spec2Isabelle
  imports Main "HOL-Library.Word"
begin

unbundle bit_operations_syntax

section \<open>Types of the cFE interface and of the CF application data\<close>

text \<open>
  The CF application (\<^verbatim>\<open>cf_app.c\<close>) is a client of the cFE services: every
  function whose name starts with \<^verbatim>\<open>CFE_\<close> is a call out of the file, and so are
  \<^verbatim>\<open>CF_ProcessGroundCommand\<close>, \<^verbatim>\<open>CF_CFDP_InitEngine\<close> and
  \<^verbatim>\<open>CF_CFDP_CycleEngine\<close>. The model keeps the application data of
  \<^verbatim>\<open>CF_AppData\<close> in a record, appends every call that leaves the file to a
  list, and takes what such a call returns from an environment that may answer
  differently at every call.
\<close>

text \<open>\<^verbatim>\<open>int32\<close>: a 32-bit word, read as two's complement where its sign matters.\<close>

type_synonym int32 = "32 word"

text \<open>
  Identifiers handed out by cFE. \<^verbatim>\<open>cf_app.c\<close> only stores, compares and passes
  them on.
\<close>

type_synonym CFE_SB_MsgId_t = "32 word"
type_synonym CFE_SB_PipeId_t = "32 word"
type_synonym CFE_TBL_Handle_t = "16 word"
type_synonym CFE_TIME_SysTime_t = "64 word"

text \<open>The address of the configuration table, as \<^verbatim>\<open>CFE_TBL_GetAddress\<close> gives it.\<close>

type_synonym cf_config_table_ptr = nat

datatype CFE_ES_RunStatus =
    CFE_ES_RunStatus_APP_RUN
  | CFE_ES_RunStatus_APP_EXIT
  | CFE_ES_RunStatus_APP_ERROR

datatype CFE_EVS_EventType =
    CFE_EVS_EventType_INFORMATION
  | CFE_EVS_EventType_ERROR

text \<open>The event identifiers that \<^verbatim>\<open>cf_app.c\<close> sends.\<close>

datatype CF_EID =
    CF_EID_INF_INIT
  | CF_EID_ERR_INIT_TBL_CHECK_REL
  | CF_EID_ERR_INIT_TBL_CHECK_MAN
  | CF_EID_ERR_INIT_TBL_CHECK_GA
  | CF_EID_ERR_INIT_TBL_REG
  | CF_EID_ERR_INIT_TBL_LOAD
  | CF_EID_ERR_INIT_TBL_MANAGE
  | CF_EID_ERR_INIT_TBL_GETADDR
  | CF_EID_ERR_INIT_CMD_LENGTH
  | CF_EID_ERR_INIT_MSG_RECV
  | CF_EID_ERR_INIT_TPS
  | CF_EID_ERR_INIT_CRC_ALIGN
  | CF_EID_ERR_INIT_OUTGOING_SIZE

datatype CF_PERF_ID =
    CF_PERF_ID_APPMAIN
  | CF_PERF_ID_CYCLE_ENG

text \<open>The two telemetry packets that \<^verbatim>\<open>CF_Init\<close> initialises.\<close>

datatype CF_TLM_MID =
    CF_HK_TLM_MID
  | CF_CONFIG_TLM_MID

text \<open>A software bus buffer: the message identifier of its header, and its bytes.\<close>

record CFE_SB_Buffer_t =
  MsgId :: CFE_SB_MsgId_t
  MsgBytes :: "8 word list"

text \<open>
  The housekeeping packet \<^verbatim>\<open>CF_AppData.hk\<close>: the time stamp of its telemetry
  header and the two command counters. The width of the counters is declared outside
  the two source files, so it is the type parameter \<open>'c\<close> (a word type wherever the
  packet is used).
\<close>

record 'c cf_hk_packet_t =
  tlm_time :: CFE_TIME_SysTime_t
  counters_cmd :: 'c
  counters_err :: 'c

text \<open>
  The configuration table, with the three fields that the validation function reads.
  Their widths are declared outside the two source files and are type parameters.
\<close>

record ('a, 'b, 'd) cf_config_table_t =
  ticks_per_second :: 'a
  rx_crc_calc_bytes_per_wakeup :: 'b
  outgoing_file_chunk_size :: 'd

text \<open>Every call that leaves \<^verbatim>\<open>cf_app.c\<close>, with the arguments that identify it.\<close>

datatype 'c ext_call =
    Call_CFE_TIME_GetTime
  | Call_CFE_MSG_SetMsgTime CFE_TIME_SysTime_t
  | Call_CFE_SB_TransmitMsg "'c cf_hk_packet_t"
  | Call_CFE_TBL_ReleaseAddress CFE_TBL_Handle_t
  | Call_CFE_TBL_Manage CFE_TBL_Handle_t
  | Call_CFE_TBL_GetAddress CFE_TBL_Handle_t
  | Call_CFE_TBL_Register
  | Call_CFE_TBL_Load CFE_TBL_Handle_t
  | Call_CFE_EVS_SendEvent CF_EID CFE_EVS_EventType
  | Call_CFE_EVS_Register
  | Call_CFE_ES_WriteToSysLog
  | Call_CFE_MSG_Init CF_TLM_MID
  | Call_CFE_SB_CreatePipe
  | Call_CFE_SB_Subscribe CFE_SB_MsgId_t CFE_SB_PipeId_t
  | Call_CFE_SB_ReceiveBuffer CFE_SB_PipeId_t
  | Call_CFE_MSG_GetMsgId
  | Call_CFE_ES_PerfLogEntry CF_PERF_ID
  | Call_CFE_ES_PerfLogExit CF_PERF_ID
  | Call_CFE_ES_RunLoop CFE_ES_RunStatus
  | Call_CFE_ES_ExitApp CFE_ES_RunStatus
  | Call_CF_CFDP_InitEngine
  | Call_CF_CFDP_CycleEngine
  | Call_CF_ProcessGroundCommand CFE_SB_Buffer_t

text \<open>
  \<^verbatim>\<open>CF_AppData_t\<close>: the fields of the global \<^verbatim>\<open>CF_AppData\<close> that
  \<^verbatim>\<open>cf_app.c\<close> reads or writes.
\<close>

record 'c CF_AppData_t =
  run_status :: CFE_ES_RunStatus
  hk :: "'c cf_hk_packet_t"
  engine_enabled :: bool
  config_handle :: CFE_TBL_Handle_t
  config_table :: cf_config_table_ptr
  cmd_pipe :: CFE_SB_PipeId_t

text \<open>The state of a run: the application data and the calls made so far, oldest first.\<close>

record 'c world = "'c CF_AppData_t" +
  calls :: "'c ext_call list"

text \<open>
  What \<^verbatim>\<open>cf_app.c\<close> takes from outside the two source files.
  \<^item> Constants of headers that are not among them: the three message identifiers, three
    cFE status codes and \<^verbatim>\<open>sizeof(pdu_fd_data_t)\<close>.
  \<^item> \<open>ret_status\<close>: the status that the latest call returns, given all calls so far.
  \<^item> \<open>out_\<close>: what a call writes through a pointer argument (\<open>None\<close>: nothing is
    written; for the received buffer, \<open>None\<close> is the null pointer).
  \<^item> \<open>eff_\<close>: what the ground command processor and the protocol engine do to the
    application data.
\<close>

record 'c env =
  CF_CMD_MID :: CFE_SB_MsgId_t
  CF_SEND_HK_MID :: CFE_SB_MsgId_t
  CF_WAKE_UP_MID :: CFE_SB_MsgId_t
  CFE_SUCCESS :: int32
  CFE_TBL_INFO_UPDATED :: int32
  CFE_SB_TIME_OUT :: int32
  sizeof_pdu_fd_data_t :: nat
  ret_status :: "'c ext_call list \<Rightarrow> int32"
  out_time :: "'c ext_call list \<Rightarrow> CFE_TIME_SysTime_t"
  out_pipe :: "'c ext_call list \<Rightarrow> CFE_SB_PipeId_t option"
  out_tbl_handle :: "'c ext_call list \<Rightarrow> CFE_TBL_Handle_t option"
  out_tbl_address :: "'c ext_call list \<Rightarrow> cf_config_table_ptr option"
  out_buffer :: "'c ext_call list \<Rightarrow> CFE_SB_Buffer_t option"
  host_run :: "'c ext_call list \<Rightarrow> bool"
  eff_ProcessGroundCommand :: "CFE_SB_Buffer_t \<Rightarrow> 'c world \<Rightarrow> 'c world"
  eff_CycleEngine :: "'c world \<Rightarrow> 'c world"
  eff_InitEngine :: "'c world \<Rightarrow> 'c world"

section \<open>Calls out of the file\<close>

definition log_call :: "'c ext_call \<Rightarrow> 'c world \<Rightarrow> 'c world" where
  "log_call c w = w\<lparr>calls := calls w @ [c]\<rparr>"

definition status_call :: "'c env \<Rightarrow> 'c ext_call \<Rightarrow> 'c world \<Rightarrow> int32 \<times> 'c world" where
  "status_call env c w = (ret_status env (calls w @ [c]), log_call c w)"

definition CFE_TIME_GetTime :: "'c env \<Rightarrow> 'c world \<Rightarrow> CFE_TIME_SysTime_t \<times> 'c world" where
  "CFE_TIME_GetTime env w = (out_time env (calls w @ [Call_CFE_TIME_GetTime]), log_call Call_CFE_TIME_GetTime w)"

definition CFE_MSG_SetMsgTime_hk :: "CFE_TIME_SysTime_t \<Rightarrow> 'c world \<Rightarrow> 'c world" where
  "CFE_MSG_SetMsgTime_hk t w = log_call (Call_CFE_MSG_SetMsgTime t) (w\<lparr>hk := (hk w)\<lparr>tlm_time := t\<rparr>\<rparr>)"

definition CFE_SB_TransmitMsg_hk :: "'c world \<Rightarrow> 'c world" where
  "CFE_SB_TransmitMsg_hk w = log_call (Call_CFE_SB_TransmitMsg (hk w)) w"

definition CFE_TBL_ReleaseAddress :: "'c env \<Rightarrow> CFE_TBL_Handle_t \<Rightarrow> 'c world \<Rightarrow> int32 \<times> 'c world" where
  "CFE_TBL_ReleaseAddress env h w = status_call env (Call_CFE_TBL_ReleaseAddress h) w"

definition CFE_TBL_Manage :: "'c env \<Rightarrow> CFE_TBL_Handle_t \<Rightarrow> 'c world \<Rightarrow> int32 \<times> 'c world" where
  "CFE_TBL_Manage env h w = status_call env (Call_CFE_TBL_Manage h) w"

text \<open>\<^verbatim>\<open>CFE_TBL_GetAddress(&CF_AppData.config_table, h)\<close>\<close>

definition CFE_TBL_GetAddress :: "'c env \<Rightarrow> CFE_TBL_Handle_t \<Rightarrow> 'c world \<Rightarrow> int32 \<times> 'c world" where
  "CFE_TBL_GetAddress env h w =
     (let cs = calls w @ [Call_CFE_TBL_GetAddress h];
          w1 = (case out_tbl_address env cs of None \<Rightarrow> w | Some a \<Rightarrow> w\<lparr>config_table := a\<rparr>)
      in status_call env (Call_CFE_TBL_GetAddress h) w1)"

text \<open>\<^verbatim>\<open>CFE_TBL_Register(&CF_AppData.config_handle, ...)\<close>\<close>

definition CFE_TBL_Register :: "'c env \<Rightarrow> 'c world \<Rightarrow> int32 \<times> 'c world" where
  "CFE_TBL_Register env w =
     (let cs = calls w @ [Call_CFE_TBL_Register];
          w1 = (case out_tbl_handle env cs of None \<Rightarrow> w | Some h \<Rightarrow> w\<lparr>config_handle := h\<rparr>)
      in status_call env Call_CFE_TBL_Register w1)"

definition CFE_TBL_Load :: "'c env \<Rightarrow> CFE_TBL_Handle_t \<Rightarrow> 'c world \<Rightarrow> int32 \<times> 'c world" where
  "CFE_TBL_Load env h w = status_call env (Call_CFE_TBL_Load h) w"

definition CFE_EVS_SendEvent :: "'c env \<Rightarrow> CF_EID \<Rightarrow> CFE_EVS_EventType \<Rightarrow> 'c world \<Rightarrow> int32 \<times> 'c world" where
  "CFE_EVS_SendEvent env e t w = status_call env (Call_CFE_EVS_SendEvent e t) w"

text \<open>
  \<^verbatim>\<open>CFE_EVS_Register(cf_event_filters, ...)\<close>: the filter table is constant data
  handed to cFE; only the call and its status are modelled.
\<close>

definition CFE_EVS_Register :: "'c env \<Rightarrow> 'c world \<Rightarrow> int32 \<times> 'c world" where
  "CFE_EVS_Register env w = status_call env Call_CFE_EVS_Register w"

definition CFE_ES_WriteToSysLog :: "'c world \<Rightarrow> 'c world" where
  "CFE_ES_WriteToSysLog w = log_call Call_CFE_ES_WriteToSysLog w"

definition CFE_MSG_Init :: "CF_TLM_MID \<Rightarrow> 'c world \<Rightarrow> 'c world" where
  "CFE_MSG_Init m w = log_call (Call_CFE_MSG_Init m) w"

text \<open>\<^verbatim>\<open>CFE_SB_CreatePipe(&CF_AppData.cmd_pipe, ...)\<close>\<close>

definition CFE_SB_CreatePipe :: "'c env \<Rightarrow> 'c world \<Rightarrow> int32 \<times> 'c world" where
  "CFE_SB_CreatePipe env w =
     (let cs = calls w @ [Call_CFE_SB_CreatePipe];
          w1 = (case out_pipe env cs of None \<Rightarrow> w | Some p \<Rightarrow> w\<lparr>cmd_pipe := p\<rparr>)
      in status_call env Call_CFE_SB_CreatePipe w1)"

definition CFE_SB_Subscribe :: "'c env \<Rightarrow> CFE_SB_MsgId_t \<Rightarrow> CFE_SB_PipeId_t \<Rightarrow> 'c world \<Rightarrow> int32 \<times> 'c world" where
  "CFE_SB_Subscribe env m p w = status_call env (Call_CFE_SB_Subscribe m p) w"

text \<open>
  \<^verbatim>\<open>CFE_SB_ReceiveBuffer(&msg, pipe, CF_RCVMSG_TIMEOUT)\<close>: the status and the
  buffer pointer written to \<^verbatim>\<open>msg\<close>.
\<close>

definition CFE_SB_ReceiveBuffer :: "'c env \<Rightarrow> CFE_SB_PipeId_t \<Rightarrow> 'c world \<Rightarrow> (int32 \<times> CFE_SB_Buffer_t option) \<times> 'c world" where
  "CFE_SB_ReceiveBuffer env p w =
     (let cs = calls w @ [Call_CFE_SB_ReceiveBuffer p]
      in ((ret_status env cs, out_buffer env cs), log_call (Call_CFE_SB_ReceiveBuffer p) w))"

definition CFE_MSG_GetMsgId :: "CFE_SB_Buffer_t \<Rightarrow> 'c world \<Rightarrow> CFE_SB_MsgId_t \<times> 'c world" where
  "CFE_MSG_GetMsgId msg w = (MsgId msg, log_call Call_CFE_MSG_GetMsgId w)"

definition CFE_ES_PerfLogEntry :: "CF_PERF_ID \<Rightarrow> 'c world \<Rightarrow> 'c world" where
  "CFE_ES_PerfLogEntry i w = log_call (Call_CFE_ES_PerfLogEntry i) w"

definition CFE_ES_PerfLogExit :: "CF_PERF_ID \<Rightarrow> 'c world \<Rightarrow> 'c world" where
  "CFE_ES_PerfLogExit i w = log_call (Call_CFE_ES_PerfLogExit i) w"

definition CFE_ES_ExitApp :: "CFE_ES_RunStatus \<Rightarrow> 'c world \<Rightarrow> 'c world" where
  "CFE_ES_ExitApp r w = log_call (Call_CFE_ES_ExitApp r) w"

text \<open>
  Modelled from the spec: \<^verbatim>\<open>CFE_ES_RunLoop\<close> is the host's run-status primitive
  and is not part of the source files. The spec has the run loop continue "while state
  == RUNNING" and describes the primitive as the query "should continue running" given
  the current state: the answer is no once the run status is not RUN, and otherwise it
  is the host's.
\<close>

definition CFE_ES_RunLoop :: "'c env \<Rightarrow> 'c world \<Rightarrow> bool \<times> 'c world" where
  "CFE_ES_RunLoop env w =
     (let cs = calls w @ [Call_CFE_ES_RunLoop (run_status w)]
      in (run_status w = CFE_ES_RunStatus_APP_RUN \<and> host_run env cs,
          log_call (Call_CFE_ES_RunLoop (run_status w)) w))"

text \<open>
  The three functions of the application that are defined in other files: the call is
  logged and the application data becomes what the environment says.
\<close>

definition CF_ProcessGroundCommand :: "'c env \<Rightarrow> CFE_SB_Buffer_t \<Rightarrow> 'c world \<Rightarrow> 'c world" where
  "CF_ProcessGroundCommand env msg w =
     (eff_ProcessGroundCommand env msg w)\<lparr>calls := calls w @ [Call_CF_ProcessGroundCommand msg]\<rparr>"

definition CF_CFDP_CycleEngine :: "'c env \<Rightarrow> 'c world \<Rightarrow> 'c world" where
  "CF_CFDP_CycleEngine env w =
     (eff_CycleEngine env w)\<lparr>calls := calls w @ [Call_CF_CFDP_CycleEngine]\<rparr>"

definition CF_CFDP_InitEngine :: "'c env \<Rightarrow> 'c world \<Rightarrow> int32 \<times> 'c world" where
  "CF_CFDP_InitEngine env w =
     (ret_status env (calls w @ [Call_CF_CFDP_InitEngine]),
      (eff_InitEngine env w)\<lparr>calls := calls w @ [Call_CF_CFDP_InitEngine]\<rparr>)"

section \<open>cf\_app.c\<close>

subsection \<open>CF\_HkCmd\<close>

definition CF_HkCmd :: "'c env \<Rightarrow> 'c world \<Rightarrow> 'c world" where
  "CF_HkCmd env w =
     (case CFE_TIME_GetTime env w of
        (t, w1) \<Rightarrow> CFE_SB_TransmitMsg_hk (CFE_MSG_SetMsgTime_hk t w1))"

subsection \<open>CF\_CheckTables\<close>

definition CF_CheckTables :: "'c env \<Rightarrow> 'c world \<Rightarrow> 'c world" where
  "CF_CheckTables env w =
     (if \<not> engine_enabled w then
        (case CFE_TBL_ReleaseAddress env (config_handle w) w of (status, w1) \<Rightarrow>
         let w2 = (if status \<noteq> CFE_SUCCESS env
                   then (snd (CFE_EVS_SendEvent env CF_EID_ERR_INIT_TBL_CHECK_REL CFE_EVS_EventType_ERROR w1))
                          \<lparr>run_status := CFE_ES_RunStatus_APP_ERROR\<rparr>
                   else w1)
         in
         case CFE_TBL_Manage env (config_handle w2) w2 of (status, w3) \<Rightarrow>
         let w4 = (if status \<noteq> CFE_SUCCESS env
                   then (snd (CFE_EVS_SendEvent env CF_EID_ERR_INIT_TBL_CHECK_MAN CFE_EVS_EventType_ERROR w3))
                          \<lparr>run_status := CFE_ES_RunStatus_APP_ERROR\<rparr>
                   else w3)
         in
         case CFE_TBL_GetAddress env (config_handle w4) w4 of (status, w5) \<Rightarrow>
         if status \<noteq> CFE_SUCCESS env \<and> status \<noteq> CFE_TBL_INFO_UPDATED env
         then (snd (CFE_EVS_SendEvent env CF_EID_ERR_INIT_TBL_CHECK_GA CFE_EVS_EventType_ERROR w5))
                \<lparr>run_status := CFE_ES_RunStatus_APP_ERROR\<rparr>
         else w5)
      else w)"

subsection \<open>CF\_ValidateConfigTable\<close>

text \<open>
  The unsigned fields are compared as C does: \<^verbatim>\<open>!x\<close> is \<open>x = 0\<close>, and the chunk
  size is converted to \<^verbatim>\<open>size_t\<close> for the comparison with \<^verbatim>\<open>sizeof\<close>.
\<close>

definition CF_ValidateConfigTable ::
  "'c env \<Rightarrow> ('a::len word, 'b::len word, 'd::len word) cf_config_table_t \<Rightarrow> 'c world \<Rightarrow> int32 \<times> 'c world" where
  "CF_ValidateConfigTable env tbl w =
     (let no_ticks_per_second = - 1;
          crc_alignment = - 2;
          outgoing_chunk_size = - 3
      in
      if ticks_per_second tbl = 0 then
        (no_ticks_per_second,
         snd (CFE_EVS_SendEvent env CF_EID_ERR_INIT_TPS CFE_EVS_EventType_ERROR w))
      else if rx_crc_calc_bytes_per_wakeup tbl = 0
              \<or> (rx_crc_calc_bytes_per_wakeup tbl AND 0x3ff) \<noteq> 0 then
        (crc_alignment,
         snd (CFE_EVS_SendEvent env CF_EID_ERR_INIT_CRC_ALIGN CFE_EVS_EventType_ERROR w))
      else if unat (outgoing_file_chunk_size tbl) > sizeof_pdu_fd_data_t env then
        (outgoing_chunk_size,
         snd (CFE_EVS_SendEvent env CF_EID_ERR_INIT_OUTGOING_SIZE CFE_EVS_EventType_ERROR w))
      else
        ((CFE_SUCCESS env), w))"

subsection \<open>CF\_TableInit\<close>

text \<open>Each \<^verbatim>\<open>goto err_out\<close> is the end of the function with the status at hand.\<close>

definition CF_TableInit :: "'c env \<Rightarrow> 'c world \<Rightarrow> int32 \<times> 'c world" where
  "CF_TableInit env w =
     (case CFE_TBL_Register env w of (status, w1) \<Rightarrow>
      if status \<noteq> CFE_SUCCESS env then
        (status, snd (CFE_EVS_SendEvent env CF_EID_ERR_INIT_TBL_REG CFE_EVS_EventType_ERROR w1))
      else
      case CFE_TBL_Load env (config_handle w1) w1 of (status, w2) \<Rightarrow>
      if status \<noteq> CFE_SUCCESS env then
        (status, snd (CFE_EVS_SendEvent env CF_EID_ERR_INIT_TBL_LOAD CFE_EVS_EventType_ERROR w2))
      else
      case CFE_TBL_Manage env (config_handle w2) w2 of (status, w3) \<Rightarrow>
      if status \<noteq> CFE_SUCCESS env then
        (status, snd (CFE_EVS_SendEvent env CF_EID_ERR_INIT_TBL_MANAGE CFE_EVS_EventType_ERROR w3))
      else
      case CFE_TBL_GetAddress env (config_handle w3) w3 of (status, w4) \<Rightarrow>
      if status \<noteq> CFE_TBL_INFO_UPDATED env \<and> status \<noteq> CFE_SUCCESS env then
        (status, snd (CFE_EVS_SendEvent env CF_EID_ERR_INIT_TBL_GETADDR CFE_EVS_EventType_ERROR w4))
      else
        ((CFE_SUCCESS env), w4))"

subsection \<open>CF\_Init\<close>

text \<open>
  The subscription loop of \<^verbatim>\<open>CF_Init\<close> over \<^verbatim>\<open>mids\<close>: it leaves at the
  first subscription that fails, and otherwise ends with the status it last had.
\<close>

fun CF_Init_subscribe :: "'c env \<Rightarrow> CFE_SB_MsgId_t list \<Rightarrow> int32 \<Rightarrow> 'c world \<Rightarrow> int32 \<times> 'c world" where
  "CF_Init_subscribe env [] status w = (status, w)"
| "CF_Init_subscribe env (m # ms) status w =
     (case CFE_SB_Subscribe env m (cmd_pipe w) w of (status1, w1) \<Rightarrow>
      if status1 \<noteq> CFE_SUCCESS env then (status1, CFE_ES_WriteToSysLog w1)
      else CF_Init_subscribe env ms status1 w1)"

definition CF_Init :: "'c env \<Rightarrow> 'c world \<Rightarrow> int32 \<times> 'c world" where
  "CF_Init env w =
     (let w0 = CFE_MSG_Init CF_CONFIG_TLM_MID
                 (CFE_MSG_Init CF_HK_TLM_MID (w\<lparr>run_status := CFE_ES_RunStatus_APP_RUN\<rparr>))
      in
      case CFE_EVS_Register env w0 of (status, w1) \<Rightarrow>
      if status \<noteq> CFE_SUCCESS env then (status, CFE_ES_WriteToSysLog w1)
      else
      case CFE_SB_CreatePipe env w1 of (status, w2) \<Rightarrow>
      if status \<noteq> CFE_SUCCESS env then (status, CFE_ES_WriteToSysLog w2)
      else
      case CF_Init_subscribe env [CF_CMD_MID env, CF_SEND_HK_MID env, CF_WAKE_UP_MID env] status w2
        of (status, w3) \<Rightarrow>
      if status \<noteq> CFE_SUCCESS env then (status, w3)
      else
      case CF_TableInit env w3 of (status, w4) \<Rightarrow>
      if status \<noteq> CFE_SUCCESS env then (status, w4)
      else
      case CF_CFDP_InitEngine env w4 of (status, w5) \<Rightarrow>
      if status \<noteq> CFE_SUCCESS env then (status, w5)
      else
      case CFE_EVS_SendEvent env CF_EID_INF_INIT CFE_EVS_EventType_INFORMATION w5 of (status, w6) \<Rightarrow>
      if status \<noteq> CFE_SUCCESS env then (status, CFE_ES_WriteToSysLog w6)
      else (status, w6))"

subsection \<open>CF\_WakeUp\<close>

definition CF_WakeUp :: "'c env \<Rightarrow> 'c world \<Rightarrow> 'c world" where
  "CF_WakeUp env w =
     CFE_ES_PerfLogExit CF_PERF_ID_CYCLE_ENG
       (CF_CFDP_CycleEngine env
          (CFE_ES_PerfLogEntry CF_PERF_ID_CYCLE_ENG w))"

subsection \<open>CF\_ProcessMsg\<close>

text \<open>
  The \<^verbatim>\<open>switch\<close> on the message identifier, its cases in the order of the source
  (C requires the three case labels to be different constants).
\<close>

definition CF_ProcessMsg :: "('c::len) word env \<Rightarrow> CFE_SB_Buffer_t \<Rightarrow> 'c word world \<Rightarrow> 'c word world" where
  "CF_ProcessMsg env msg w =
     (case CFE_MSG_GetMsgId msg w of (msg_id, w1) \<Rightarrow>
      if msg_id = CF_CMD_MID env then
        CF_ProcessGroundCommand env msg w1
      else if msg_id = CF_WAKE_UP_MID env then
        CF_WakeUp env w1
      else if msg_id = CF_SEND_HK_MID env then
        CF_CheckTables env (CF_HkCmd env w1)
      else
        snd (CFE_EVS_SendEvent env CF_EID_ERR_INIT_CMD_LENGTH CFE_EVS_EventType_ERROR
               (w1\<lparr>hk := (hk w1)\<lparr>counters_err := counters_err (hk w1) + 1\<rparr>\<rparr>)))"

subsection \<open>CF\_AppMain\<close>

text \<open>The body of the \<^verbatim>\<open>while\<close> loop: one receive and what follows from it.\<close>

definition CF_AppMain_iteration :: "('c::len) word env \<Rightarrow> 'c word world \<Rightarrow> 'c word world" where
  "CF_AppMain_iteration env w =
     (let w1 = CFE_ES_PerfLogExit CF_PERF_ID_APPMAIN w in
      case CFE_SB_ReceiveBuffer env (cmd_pipe w1) w1 of ((status, msg), w2) \<Rightarrow>
      let w3 = CFE_ES_PerfLogEntry CF_PERF_ID_APPMAIN w2 in
      if (status \<noteq> CFE_SUCCESS env \<and> status \<noteq> CFE_SB_TIME_OUT env) \<or> (status = CFE_SUCCESS env \<and> msg = None)
      then (snd (CFE_EVS_SendEvent env CF_EID_ERR_INIT_MSG_RECV CFE_EVS_EventType_ERROR w3))
             \<lparr>run_status := CFE_ES_RunStatus_APP_ERROR\<rparr>
      else (case msg of Some m \<Rightarrow> CF_ProcessMsg env m w3 | None \<Rightarrow> w3))"

text \<open>
  The \<^verbatim>\<open>while\<close> loop. It may run forever (the host keeps the application
  running and messages keep coming): the result is \<open>None\<close> then.
\<close>

partial_function (option) CF_AppMain_loop :: "('c::len) word env \<Rightarrow> 'c word world \<Rightarrow> 'c word world option" where
  "CF_AppMain_loop env w =
     (case CFE_ES_RunLoop env w of (continue, w1) \<Rightarrow>
      if continue then CF_AppMain_loop env (CF_AppMain_iteration env w1) else Some w1)"

definition CF_AppMain :: "('c::len) word env \<Rightarrow> 'c word world \<Rightarrow> 'c word world option" where
  "CF_AppMain env w =
     (case CF_Init env (CFE_ES_PerfLogEntry CF_PERF_ID_APPMAIN w) of (status, w1) \<Rightarrow>
      let w2 = (if status \<noteq> CFE_SUCCESS env then w1\<lparr>run_status := CFE_ES_RunStatus_APP_ERROR\<rparr> else w1) in
      (case CF_AppMain_loop env w2 of
         None \<Rightarrow> None
       | Some w3 \<Rightarrow>
           let w4 = CFE_ES_PerfLogExit CF_PERF_ID_APPMAIN w3
           in Some (CFE_ES_ExitApp (run_status w4) w4)))"

section \<open>cf\_timer.h\<close>

text \<open>\<^verbatim>\<open>CF_Timer_Tick_t\<close> is \<^verbatim>\<open>uint32\<close>.\<close>

record cf_timer_t =
  tick :: "32 word"

text \<open>
  Modelled from the spec: \<^verbatim>\<open>CF_Timer_Tick\<close> is only declared in
  \<^verbatim>\<open>cf_timer.h\<close>; its body is not among the source files. The spec's
  \<open>Advance(timer)\<close> "decrements tick by one, floored at 0".
\<close>

definition CF_Timer_Tick :: "cf_timer_t \<Rightarrow> cf_timer_t" where
  "CF_Timer_Tick t = (if tick t = 0 then t else t\<lparr>tick := tick t - 1\<rparr>)"

text \<open>
  Modelled from the spec: \<^verbatim>\<open>CF_Timer_Expired\<close> is only declared in
  \<^verbatim>\<open>cf_timer.h\<close> ("returns 1 if expired"). The spec's \<open>Expired(timer)\<close> is
  "true iff tick == 0".
\<close>

definition CF_Timer_Expired :: "cf_timer_t \<Rightarrow> bool" where
  "CF_Timer_Expired t = (tick t = 0)"

section \<open>Observing a run\<close>

text \<open>The calls made between two states of a run.\<close>

definition new_calls :: "'c world \<Rightarrow> 'c world \<Rightarrow> 'c ext_call list" where
  "new_calls w w' = drop (length (calls w)) (calls w')"

text \<open>The three table calls of the warm configuration check.\<close>

fun is_tbl_check_call :: "'c ext_call \<Rightarrow> bool" where
  "is_tbl_check_call (Call_CFE_TBL_ReleaseAddress h) = True"
| "is_tbl_check_call (Call_CFE_TBL_Manage h) = True"
| "is_tbl_check_call (Call_CFE_TBL_GetAddress h) = True"
| "is_tbl_check_call c = False"

text \<open>
  The calls that are steps of the initialisation, numbered as the spec numbers them:
  1 the event filters, 2 the pipe and its subscriptions, 3 the configuration table,
  4 the engine, 5 the startup event. Every other call (a log entry, an error event) is 0.
\<close>

fun init_step :: "'c ext_call \<Rightarrow> nat" where
  "init_step Call_CFE_EVS_Register = 1"
| "init_step Call_CFE_SB_CreatePipe = 2"
| "init_step (Call_CFE_SB_Subscribe m p) = 2"
| "init_step Call_CFE_TBL_Register = 3"
| "init_step (Call_CFE_TBL_Load h) = 3"
| "init_step (Call_CFE_TBL_Manage h) = 3"
| "init_step (Call_CFE_TBL_GetAddress h) = 3"
| "init_step Call_CF_CFDP_InitEngine = 4"
| "init_step (Call_CFE_EVS_SendEvent e t) = (if e = CF_EID_INF_INIT then 5 else 0)"
| "init_step c = 0"

text \<open>
  When a status is a failure of a step: any status but \<^verbatim>\<open>CFE_SUCCESS\<close>, and for
  \<^verbatim>\<open>CFE_TBL_GetAddress\<close> any but \<^verbatim>\<open>CFE_SUCCESS\<close> and
  \<^verbatim>\<open>CFE_TBL_INFO_UPDATED\<close>.
\<close>

fun step_failed :: "'c env \<Rightarrow> 'c ext_call \<Rightarrow> int32 \<Rightarrow> bool" where
  "step_failed env (Call_CFE_TBL_GetAddress h) status =
     (status \<noteq> CFE_SUCCESS env \<and> status \<noteq> CFE_TBL_INFO_UPDATED env)"
| "step_failed env c status = (status \<noteq> CFE_SUCCESS env)"

text \<open>
  The first step among the calls \<open>new\<close>, made after the calls \<open>cs\<close>, that
  failed: the calls before it, the call, and the calls after it. \<open>None\<close> when no
  step failed.
\<close>

fun first_failure :: "'c env \<Rightarrow> 'c ext_call list \<Rightarrow> 'c ext_call list
    \<Rightarrow> ('c ext_call list \<times> 'c ext_call \<times> 'c ext_call list) option" where
  "first_failure env cs [] = None"
| "first_failure env cs (c # new) =
     (if init_step c \<noteq> 0 \<and> step_failed env c (ret_status env (cs @ [c]))
      then Some ([], c, new)
      else map_option (\<lambda>(pre, c', post). (c # pre, c', post)) (first_failure env (cs @ [c]) new))"

text \<open>
  A run from \<open>w\<close> with result \<open>r\<close> (a status and a state) fails fast: it only
  adds calls; when no step failed the status is \<^verbatim>\<open>CFE_SUCCESS\<close>; otherwise
  the status is the one of the first step that failed, that step is numbered at least
  \<open>k\<close>, and no step follows it.
\<close>

definition fails_fast :: "nat \<Rightarrow> 'c env \<Rightarrow> 'c world \<Rightarrow> int32 \<times> 'c world \<Rightarrow> bool" where
  "fails_fast k env w r =
     (calls (snd r) = calls w @ new_calls w (snd r) \<and>
      (case first_failure env (calls w) (new_calls w (snd r)) of
         None \<Rightarrow> fst r = CFE_SUCCESS env
       | Some (pre, c, post) \<Rightarrow>
           fst r = ret_status env (calls w @ pre @ [c]) \<and> k \<le> init_step c
           \<and> list_all (\<lambda>x. init_step x = 0) post))"

section \<open>Concrete runs\<close>

text \<open>
  An environment in which every call succeeds, no message ever arrives (every receive
  times out) and the host lets the application run; and the application data before
  \<^verbatim>\<open>CF_AppMain\<close>, with 16-bit counters.
\<close>

definition env_ok :: "16 word env" where
  "env_ok = \<lparr>
     CF_CMD_MID = 0x18B3, CF_SEND_HK_MID = 0x18B4, CF_WAKE_UP_MID = 0x18B5,
     CFE_SUCCESS = 0, CFE_TBL_INFO_UPDATED = 0x4C000001, CFE_SB_TIME_OUT = 0xCA000001,
     sizeof_pdu_fd_data_t = 480,
     ret_status = (\<lambda>cs. case last cs of Call_CFE_SB_ReceiveBuffer p \<Rightarrow> 0xCA000001 | _ \<Rightarrow> 0),
     out_time = (\<lambda>cs. 0),
     out_pipe = (\<lambda>cs. Some 7),
     out_tbl_handle = (\<lambda>cs. Some 3),
     out_tbl_address = (\<lambda>cs. Some 4096),
     out_buffer = (\<lambda>cs. None),
     host_run = (\<lambda>cs. True),
     eff_ProcessGroundCommand = (\<lambda>msg w. w),
     eff_CycleEngine = (\<lambda>w. w),
     eff_InitEngine = (\<lambda>w. w\<lparr>engine_enabled := True\<rparr>)
   \<rparr>"

definition w_start :: "16 word world" where
  "w_start = \<lparr>
     run_status = CFE_ES_RunStatus_APP_RUN,
     hk = \<lparr>tlm_time = 0, counters_cmd = 0, counters_err = 0\<rparr>,
     engine_enabled = False,
     config_handle = 0,
     config_table = 0,
     cmd_pipe = 0,
     calls = []
   \<rparr>"

text \<open>The status that a call named by \<open>bad\<close> returns is 5; every other call succeeds.\<close>

definition failing :: "('c ext_call \<Rightarrow> bool) \<Rightarrow> 'c ext_call list \<Rightarrow> int32" where
  "failing bad cs = (if bad (last cs) then 5 else 0)"

text \<open>A housekeeping request, a wake-up and a message of no known class.\<close>

definition msg_hk :: CFE_SB_Buffer_t where
  "msg_hk = \<lparr>MsgId = 0x18B4, MsgBytes = []\<rparr>"

definition msg_wakeup :: CFE_SB_Buffer_t where
  "msg_wakeup = \<lparr>MsgId = 0x18B5, MsgBytes = []\<rparr>"

definition msg_other :: CFE_SB_Buffer_t where
  "msg_other = \<lparr>MsgId = 0x0801, MsgBytes = [1, 2]\<rparr>"

text \<open>The environment \<open>env_ok\<close>, but registering the event filters fails.\<close>

definition env_evs_register_fails :: "16 word env" where
  "env_evs_register_fails = env_ok\<lparr>ret_status := failing (\<lambda>c. c = Call_CFE_EVS_Register)\<rparr>"

text \<open>The environment \<open>env_ok\<close>, but loading the configuration table fails.\<close>

definition env_load_fails :: "16 word env" where
  "env_load_fails = env_ok\<lparr>ret_status := failing (\<lambda>c. c = Call_CFE_TBL_Load 3)\<rparr>"

text \<open>The state in which \<^verbatim>\<open>CF_Init\<close> ends then.\<close>

definition w_load_failed :: "16 word world" where
  "w_load_failed = w_start\<lparr>config_handle := 3, cmd_pipe := 7,
     calls := [Call_CFE_ES_PerfLogEntry CF_PERF_ID_APPMAIN,
               Call_CFE_MSG_Init CF_HK_TLM_MID, Call_CFE_MSG_Init CF_CONFIG_TLM_MID,
               Call_CFE_EVS_Register, Call_CFE_SB_CreatePipe,
               Call_CFE_SB_Subscribe 0x18B3 7, Call_CFE_SB_Subscribe 0x18B4 7,
               Call_CFE_SB_Subscribe 0x18B5 7,
               Call_CFE_TBL_Register, Call_CFE_TBL_Load 3,
               Call_CFE_EVS_SendEvent CF_EID_ERR_INIT_TBL_LOAD CFE_EVS_EventType_ERROR]\<rparr>"


text \<open>A configuration table with 32-bit rates and a 16-bit chunk size.\<close>

definition tbl_of :: "32 word \<Rightarrow> 32 word \<Rightarrow> 16 word \<Rightarrow> (32 word, 32 word, 16 word) cf_config_table_t" where
  "tbl_of t r c = \<lparr>ticks_per_second = t, rx_crc_calc_bytes_per_wakeup = r, outgoing_file_chunk_size = c\<rparr>"

section \<open>Facts about the calls out of the file\<close>

lemma log_call_simps:
  "calls (log_call c w) = calls w @ [c]"
  "run_status (log_call c w) = run_status w"
  "hk (log_call c w) = hk w"
  "engine_enabled (log_call c w) = engine_enabled w"
  "config_handle (log_call c w) = config_handle w"
  "config_table (log_call c w) = config_table w"
  "cmd_pipe (log_call c w) = cmd_pipe w"
  by (simp_all add: log_call_def)

lemma status_call_simps:
  "fst (status_call env c w) = ret_status env (calls w @ [c])"
  "snd (status_call env c w) = log_call c w"
  by (simp_all add: status_call_def)

lemma CFE_TBL_GetAddress_simps:
  "fst (CFE_TBL_GetAddress env h w) = ret_status env (calls w @ [Call_CFE_TBL_GetAddress h])"
  "calls (snd (CFE_TBL_GetAddress env h w)) = calls w @ [Call_CFE_TBL_GetAddress h]"
  "run_status (snd (CFE_TBL_GetAddress env h w)) = run_status w"
  "hk (snd (CFE_TBL_GetAddress env h w)) = hk w"
  "engine_enabled (snd (CFE_TBL_GetAddress env h w)) = engine_enabled w"
  "config_handle (snd (CFE_TBL_GetAddress env h w)) = config_handle w"
  "cmd_pipe (snd (CFE_TBL_GetAddress env h w)) = cmd_pipe w"
  by (simp_all add: CFE_TBL_GetAddress_def Let_def status_call_simps log_call_simps split: option.split)

lemma CFE_TBL_Register_simps:
  "fst (CFE_TBL_Register env w) = ret_status env (calls w @ [Call_CFE_TBL_Register])"
  "calls (snd (CFE_TBL_Register env w)) = calls w @ [Call_CFE_TBL_Register]"
  "run_status (snd (CFE_TBL_Register env w)) = run_status w"
  "cmd_pipe (snd (CFE_TBL_Register env w)) = cmd_pipe w"
  by (simp_all add: CFE_TBL_Register_def Let_def status_call_simps log_call_simps split: option.split)

lemma CFE_SB_CreatePipe_simps:
  "fst (CFE_SB_CreatePipe env w) = ret_status env (calls w @ [Call_CFE_SB_CreatePipe])"
  "calls (snd (CFE_SB_CreatePipe env w)) = calls w @ [Call_CFE_SB_CreatePipe]"
  "run_status (snd (CFE_SB_CreatePipe env w)) = run_status w"
  by (simp_all add: CFE_SB_CreatePipe_def Let_def status_call_simps log_call_simps split: option.split)

lemma CF_CFDP_InitEngine_simps:
  "fst (CF_CFDP_InitEngine env w) = ret_status env (calls w @ [Call_CF_CFDP_InitEngine])"
  "calls (snd (CF_CFDP_InitEngine env w)) = calls w @ [Call_CF_CFDP_InitEngine]"
  by (simp_all add: CF_CFDP_InitEngine_def)

lemma CF_HkCmd_simps:
  "calls (CF_HkCmd env w) =
     calls w @ [Call_CFE_TIME_GetTime,
                Call_CFE_MSG_SetMsgTime (out_time env (calls w @ [Call_CFE_TIME_GetTime])),
                Call_CFE_SB_TransmitMsg ((hk w)\<lparr>tlm_time := out_time env (calls w @ [Call_CFE_TIME_GetTime])\<rparr>)]"
  "run_status (CF_HkCmd env w) = run_status w"
  "engine_enabled (CF_HkCmd env w) = engine_enabled w"
  "config_handle (CF_HkCmd env w) = config_handle w"
  by (simp_all add: CF_HkCmd_def CFE_TIME_GetTime_def CFE_MSG_SetMsgTime_hk_def
        CFE_SB_TransmitMsg_hk_def log_call_simps)

lemma CF_CheckTables_enabled: "engine_enabled w \<Longrightarrow> CF_CheckTables env w = w"
  by (simp add: CF_CheckTables_def)

lemmas CheckTables_unfold = CF_CheckTables_def CFE_TBL_ReleaseAddress_def CFE_TBL_Manage_def CFE_EVS_SendEvent_def
       Let_def split_beta status_call_simps log_call_simps CFE_TBL_GetAddress_simps

lemma CF_CheckTables_calls:
  "\<not> engine_enabled w \<Longrightarrow>
   calls (CF_CheckTables env w) =
     (let h = config_handle w;
          c1 = calls w @ [Call_CFE_TBL_ReleaseAddress h];
          c2 = (if ret_status env c1 \<noteq> CFE_SUCCESS env
                then c1 @ [Call_CFE_EVS_SendEvent CF_EID_ERR_INIT_TBL_CHECK_REL CFE_EVS_EventType_ERROR]
                else c1) @ [Call_CFE_TBL_Manage h];
          c3 = (if ret_status env c2 \<noteq> CFE_SUCCESS env
                then c2 @ [Call_CFE_EVS_SendEvent CF_EID_ERR_INIT_TBL_CHECK_MAN CFE_EVS_EventType_ERROR]
                else c2) @ [Call_CFE_TBL_GetAddress h]
      in if ret_status env c3 \<noteq> CFE_SUCCESS env \<and> ret_status env c3 \<noteq> CFE_TBL_INFO_UPDATED env
         then c3 @ [Call_CFE_EVS_SendEvent CF_EID_ERR_INIT_TBL_CHECK_GA CFE_EVS_EventType_ERROR]
         else c3)"
  by (simp add: CheckTables_unfold)

lemma CF_CheckTables_run_status:
  "\<not> engine_enabled w \<Longrightarrow>
   run_status (CF_CheckTables env w) =
     (let h = config_handle w;
          c1 = calls w @ [Call_CFE_TBL_ReleaseAddress h];
          c2 = (if ret_status env c1 \<noteq> CFE_SUCCESS env
                then c1 @ [Call_CFE_EVS_SendEvent CF_EID_ERR_INIT_TBL_CHECK_REL CFE_EVS_EventType_ERROR]
                else c1) @ [Call_CFE_TBL_Manage h];
          c3 = (if ret_status env c2 \<noteq> CFE_SUCCESS env
                then c2 @ [Call_CFE_EVS_SendEvent CF_EID_ERR_INIT_TBL_CHECK_MAN CFE_EVS_EventType_ERROR]
                else c2) @ [Call_CFE_TBL_GetAddress h]
      in if ret_status env c1 \<noteq> CFE_SUCCESS env \<or> ret_status env c2 \<noteq> CFE_SUCCESS env
            \<or> (ret_status env c3 \<noteq> CFE_SUCCESS env \<and> ret_status env c3 \<noteq> CFE_TBL_INFO_UPDATED env)
         then CFE_ES_RunStatus_APP_ERROR else run_status w)"
  by (simp add: CheckTables_unfold)

lemma CF_CheckTables_new_tbl_calls:
  "\<exists>new. calls (CF_CheckTables env w) = calls w @ new \<and>
     filter is_tbl_check_call new =
     (if engine_enabled w then []
      else [Call_CFE_TBL_ReleaseAddress (config_handle w),
            Call_CFE_TBL_Manage (config_handle w),
            Call_CFE_TBL_GetAddress (config_handle w)])"
  by (cases "engine_enabled w") (simp_all add: CF_CheckTables_enabled CF_CheckTables_calls Let_def)

lemma new_calls_append: "calls w' = calls w @ new \<Longrightarrow> new_calls w w' = new"
  by (simp add: new_calls_def)

lemma CFE_SB_Subscribe_simps:
  "fst (CFE_SB_Subscribe env m p w) = ret_status env (calls w @ [Call_CFE_SB_Subscribe m p])"
  "snd (CFE_SB_Subscribe env m p w) = log_call (Call_CFE_SB_Subscribe m p) w"
  by (simp_all add: CFE_SB_Subscribe_def status_call_simps)



lemma CF_AppMain_loop_stop:
  "run_status w \<noteq> CFE_ES_RunStatus_APP_RUN \<Longrightarrow>
   CF_AppMain_loop env w = Some (log_call (Call_CFE_ES_RunLoop (run_status w)) w)"
  by (subst CF_AppMain_loop.simps) (simp add: CFE_ES_RunLoop_def)

lemma CF_AppMain_init_failed:
  assumes "CF_Init env (CFE_ES_PerfLogEntry CF_PERF_ID_APPMAIN w) = (status, w')"
    and "status \<noteq> CFE_SUCCESS env"
  shows "CF_AppMain env w =
     Some (w'\<lparr>run_status := CFE_ES_RunStatus_APP_ERROR,
              calls := calls w' @ [Call_CFE_ES_RunLoop CFE_ES_RunStatus_APP_ERROR,
                                   Call_CFE_ES_PerfLogExit CF_PERF_ID_APPMAIN,
                                   Call_CFE_ES_ExitApp CFE_ES_RunStatus_APP_ERROR]\<rparr>)"
  using assms
  by (simp add: CF_AppMain_def CF_AppMain_loop_stop CFE_ES_PerfLogExit_def CFE_ES_ExitApp_def log_call_def)

lemma CF_Init_evs_register_fails:
  assumes "ret_status env (calls w @ [Call_CFE_MSG_Init CF_HK_TLM_MID, Call_CFE_MSG_Init CF_CONFIG_TLM_MID,
             Call_CFE_EVS_Register]) \<noteq> CFE_SUCCESS env"
  shows "CF_Init env w =
    (ret_status env (calls w @ [Call_CFE_MSG_Init CF_HK_TLM_MID, Call_CFE_MSG_Init CF_CONFIG_TLM_MID,
             Call_CFE_EVS_Register]),
     w\<lparr>run_status := CFE_ES_RunStatus_APP_RUN,
       calls := calls w @ [Call_CFE_MSG_Init CF_HK_TLM_MID, Call_CFE_MSG_Init CF_CONFIG_TLM_MID,
             Call_CFE_EVS_Register, Call_CFE_ES_WriteToSysLog]\<rparr>)"
  using assms
  by (simp add: CF_Init_def CFE_MSG_Init_def CFE_EVS_Register_def CFE_ES_WriteToSysLog_def
        status_call_def log_call_def)


lemmas init_unfold = CF_Init_def CF_TableInit_def CFE_MSG_Init_def CFE_EVS_Register_def CFE_ES_WriteToSysLog_def
  CFE_TBL_Load_def CFE_TBL_Manage_def CFE_EVS_SendEvent_def
  CFE_SB_Subscribe_simps CFE_SB_CreatePipe_simps CFE_TBL_Register_simps CFE_TBL_GetAddress_simps
  CF_CFDP_InitEngine_simps status_call_simps log_call_simps split_beta Let_def

lemma CF_TableInit_first_failure:
  "(case first_failure env (calls w) (new_calls w (snd (CF_TableInit env w))) of
      None \<Rightarrow> fst (CF_TableInit env w) = CFE_SUCCESS env
    | Some (pre, c, post) \<Rightarrow>
        fst (CF_TableInit env w) = ret_status env (calls w @ pre @ [c])
        \<and> init_step c = 3 \<and> list_all (\<lambda>x. init_step x = 0) post)
   \<and> calls (snd (CF_TableInit env w)) = calls w @ new_calls w (snd (CF_TableInit env w))"
  by (simp add: init_unfold new_calls_def)



lemma first_failure_decomp:
  "first_failure env cs new = Some (pre, c, post) \<Longrightarrow> new = pre @ c # post"
  by (induction new arbitrary: cs pre) (auto split: if_splits)

lemma step_failed_not_success: "step_failed env c st \<Longrightarrow> st \<noteq> CFE_SUCCESS env"
  by (cases c) simp_all

lemma first_failure_failed:
  "first_failure env cs new = Some (pre, c, post) \<Longrightarrow>
     init_step c \<noteq> 0 \<and> step_failed env c (ret_status env (cs @ pre @ [c]))"
proof (induction new arbitrary: cs pre)
  case Nil
  then show ?case by simp
next
  case (Cons a new)
  show ?case
  proof (cases "init_step a \<noteq> 0 \<and> step_failed env a (ret_status env (cs @ [a]))")
    case True
    with Cons.prems show ?thesis by auto
  next
    case False
    with Cons.prems obtain pre' where p: "first_failure env (cs @ [a]) new = Some (pre', c, post)" "pre = a # pre'"
      by auto
    from Cons.IH [OF p(1)] p(2) show ?thesis by simp
  qed
qed

lemma first_failure_append:
  "first_failure env cs (n1 @ n2) =
     (case first_failure env cs n1 of
        Some (pre, c, post) \<Rightarrow> Some (pre, c, post @ n2)
      | None \<Rightarrow> map_option (\<lambda>(pre, c, post). (n1 @ pre, c, post)) (first_failure env (cs @ n1) n2))"
proof (induction n1 arbitrary: cs)
  case Nil
  show ?case by (simp add: option.map_ident split_def)
next
  case (Cons a n1)
  show ?case
    by (simp add: Cons.IH [of "cs @ [a]"] option.map_comp comp_def split_def split: option.split)
qed

lemma fails_fast_success:
  assumes "fails_fast k env w r" "fst r = CFE_SUCCESS env"
  shows "first_failure env (calls w) (new_calls w (snd r)) = None"
proof (cases "first_failure env (calls w) (new_calls w (snd r))")
  case None
  then show ?thesis .
next
  case (Some t)
  obtain pre c post where t: "t = (pre, c, post)" by (cases t)
  from assms(1) Some t have "fst r = ret_status env (calls w @ pre @ [c])"
    by (simp add: fails_fast_def)
  moreover from first_failure_failed Some t
  have "step_failed env c (ret_status env (calls w @ pre @ [c]))" by blast
  ultimately show ?thesis using assms(2) step_failed_not_success by metis
qed

lemma fails_fast_bind:
  assumes F: "fails_fast k env w (fst r, if fst r \<noteq> CFE_SUCCESS env then L (snd r) else snd r)"
    and G: "fst r = CFE_SUCCESS env \<Longrightarrow> fails_fast k env (snd r) (K (snd r))"
  shows "fails_fast k env w (case r of (st, w1) \<Rightarrow> if st \<noteq> CFE_SUCCESS env then (st, L w1) else K w1)"
proof (cases "fst r = CFE_SUCCESS env")
  case False
  with F show ?thesis by (simp add: split_beta)
next
  case True
  define n1 where "n1 = new_calls w (snd r)"
  define n2 where "n2 = new_calls (snd r) (snd (K (snd r)))"
  from F True have F': "fails_fast k env w ((CFE_SUCCESS env), snd r)" by simp
  then have c1: "calls (snd r) = calls w @ n1"
    by (simp add: fails_fast_def n1_def)
  from fails_fast_success [OF F'] have ff1: "first_failure env (calls w) n1 = None"
    by (simp add: n1_def)
  from G [OF True] have c2: "calls (snd (K (snd r))) = calls (snd r) @ n2"
    and o2: "(case first_failure env (calls (snd r)) n2 of
         None \<Rightarrow> fst (K (snd r)) = CFE_SUCCESS env
       | Some (pre, c, post) \<Rightarrow>
           fst (K (snd r)) = ret_status env (calls (snd r) @ pre @ [c]) \<and> k \<le> init_step c
           \<and> list_all (\<lambda>x. init_step x = 0) post)"
    by (simp_all add: fails_fast_def n2_def)
  have nc: "new_calls w (snd (K (snd r))) = n1 @ n2"
    using c1 c2 by (simp add: new_calls_def)
  have "fails_fast k env w (K (snd r))"
    unfolding fails_fast_def nc
    using c1 c2 o2 ff1
    by (auto simp add: first_failure_append split: option.splits)
  with True show ?thesis by (simp add: split_beta)
qed


lemma fails_fast_prepend:
  assumes "fails_fast k env w1 r" "calls w1 = calls w @ n1" "first_failure env (calls w) n1 = None"
  shows "fails_fast k env w r"
proof -
  have "fails_fast k env w ((CFE_SUCCESS env), w1)"
    using assms(2,3) by (simp add: fails_fast_def new_calls_def)
  from fails_fast_bind [where r = "((CFE_SUCCESS env), w1)" and K = "\<lambda>_. r" and L = "\<lambda>x. x", of k env w]
    this assms(1)
  show ?thesis by simp
qed

text \<open>A step that is one call, followed by one entry in the system log when it fails.\<close>

lemma fails_fast_call:
  assumes "calls w1 = calls w @ [c]" "init_step c \<noteq> 0" "k \<le> init_step c"
    "st = ret_status env (calls w @ [c])" "step_failed env c st \<longleftrightarrow> st \<noteq> CFE_SUCCESS env"
    "calls w2 = calls w1 @ lg" "list_all (\<lambda>x. init_step x = 0) lg"
  shows "fails_fast k env w (st, if st \<noteq> CFE_SUCCESS env then w2 else w1)"
  using assms by (simp add: fails_fast_def new_calls_def)

lemma CF_Init_subscribe_fails_fast:
  "fails_fast 2 env w (CF_Init_subscribe env ms (CFE_SUCCESS env) w)"
proof (induction ms arbitrary: w)
  case Nil
  show ?case by (simp add: fails_fast_def new_calls_def)
next
  case (Cons m ms)
  let ?c = "Call_CFE_SB_Subscribe m (cmd_pipe w)"
  let ?r = "CFE_SB_Subscribe env m (cmd_pipe w) w"
  have F: "fails_fast 2 env w (fst ?r, if fst ?r \<noteq> CFE_SUCCESS env then CFE_ES_WriteToSysLog (snd ?r) else snd ?r)"
    by (rule fails_fast_call [where c = ?c and lg = "[Call_CFE_ES_WriteToSysLog]"])
      (simp_all add: CFE_SB_Subscribe_simps log_call_simps CFE_ES_WriteToSysLog_def)
  have G: "fst ?r = CFE_SUCCESS env \<Longrightarrow> fails_fast 2 env (snd ?r) (CF_Init_subscribe env ms (fst ?r) (snd ?r))"
    using Cons.IH [of "snd ?r"] by simp
  from fails_fast_bind [where r = ?r and L = CFE_ES_WriteToSysLog
      and K = "\<lambda>w1. CF_Init_subscribe env ms (fst ?r) w1", OF F G]
  show ?case by (simp add: split_beta)
qed

lemma CF_TableInit_fails_fast: "fails_fast 2 env w (CF_TableInit env w)"
  using CF_TableInit_first_failure [of env w]
  by (auto simp add: fails_fast_def split: option.splits)


lemma CF_Init_fails_fast:
  assumes step1: "ret_status env (calls w @ [Call_CFE_MSG_Init CF_HK_TLM_MID,
      Call_CFE_MSG_Init CF_CONFIG_TLM_MID, Call_CFE_EVS_Register]) = CFE_SUCCESS env"
  shows "fails_fast 2 env w (CF_Init env w)"
proof -
  define w1 where "w1 = snd (CFE_EVS_Register env (CFE_MSG_Init CF_CONFIG_TLM_MID
                 (CFE_MSG_Init CF_HK_TLM_MID (w\<lparr>run_status := CFE_ES_RunStatus_APP_RUN\<rparr>))))"
  have c1: "calls w1 = calls w @ [Call_CFE_MSG_Init CF_HK_TLM_MID,
      Call_CFE_MSG_Init CF_CONFIG_TLM_MID, Call_CFE_EVS_Register]"
    by (simp add: w1_def CFE_EVS_Register_def CFE_MSG_Init_def status_call_simps log_call_simps)
  have st1: "fst (CFE_EVS_Register env (CFE_MSG_Init CF_CONFIG_TLM_MID
                 (CFE_MSG_Init CF_HK_TLM_MID (w\<lparr>run_status := CFE_ES_RunStatus_APP_RUN\<rparr>)))) = CFE_SUCCESS env"
    using step1 by (simp add: CFE_EVS_Register_def CFE_MSG_Init_def status_call_simps log_call_simps)
  \<comment> \<open>step 5: the startup event\<close>
  define K5 where "K5 = (\<lambda>w5. case CFE_EVS_SendEvent env CF_EID_INF_INIT CFE_EVS_EventType_INFORMATION w5 of
      (status, w6) \<Rightarrow> if status \<noteq> CFE_SUCCESS env then (status, CFE_ES_WriteToSysLog w6) else (status, w6))"
  have k5: "fails_fast 2 env w5 (K5 w5)" for w5
  proof -
    have "fails_fast 2 env w5
       (ret_status env (calls w5 @ [Call_CFE_EVS_SendEvent CF_EID_INF_INIT CFE_EVS_EventType_INFORMATION]),
        if ret_status env (calls w5 @ [Call_CFE_EVS_SendEvent CF_EID_INF_INIT CFE_EVS_EventType_INFORMATION]) \<noteq> CFE_SUCCESS env
        then CFE_ES_WriteToSysLog (log_call (Call_CFE_EVS_SendEvent CF_EID_INF_INIT CFE_EVS_EventType_INFORMATION) w5)
        else log_call (Call_CFE_EVS_SendEvent CF_EID_INF_INIT CFE_EVS_EventType_INFORMATION) w5)"
      by (rule fails_fast_call [where lg = "[Call_CFE_ES_WriteToSysLog]"
            and c = "Call_CFE_EVS_SendEvent CF_EID_INF_INIT CFE_EVS_EventType_INFORMATION"])
        (simp_all add: log_call_simps CFE_ES_WriteToSysLog_def)
    then show ?thesis
      by (simp add: K5_def CFE_EVS_SendEvent_def status_call_def if_distrib [of "Pair _"] split: if_splits)
  qed
  \<comment> \<open>step 4: the engine\<close>
  define K4 where "K4 = (\<lambda>w4. case CF_CFDP_InitEngine env w4 of
      (status, w5) \<Rightarrow> if status \<noteq> CFE_SUCCESS env then (status, w5) else K5 w5)"
  have k4: "fails_fast 2 env w4 (K4 w4)" for w4
  proof -
    let ?r = "CF_CFDP_InitEngine env w4"
    have "fails_fast 2 env w4 (fst ?r, if fst ?r \<noteq> CFE_SUCCESS env then snd ?r else snd ?r)"
      by (rule fails_fast_call [where lg = "[]" and c = Call_CF_CFDP_InitEngine])
        (simp_all add: CF_CFDP_InitEngine_simps)
    from fails_fast_bind [where r = ?r and L = "\<lambda>x. x" and K = K5, OF this k5]
    show ?thesis by (simp add: K4_def)
  qed
  \<comment> \<open>step 3: the configuration table\<close>
  define K3 where "K3 = (\<lambda>w3. case CF_TableInit env w3 of
      (status, w4) \<Rightarrow> if status \<noteq> CFE_SUCCESS env then (status, w4) else K4 w4)"
  have k3: "fails_fast 2 env w3 (K3 w3)" for w3
  proof -
    let ?r = "CF_TableInit env w3"
    have "fails_fast 2 env w3 (fst ?r, if fst ?r \<noteq> CFE_SUCCESS env then snd ?r else snd ?r)"
      using CF_TableInit_fails_fast [of env w3] by simp
    from fails_fast_bind [where r = ?r and L = "\<lambda>x. x" and K = K4, OF this k4]
    show ?thesis by (simp add: K3_def)
  qed
  \<comment> \<open>step 2: the pipe and the subscriptions\<close>
  define K2 where "K2 = (\<lambda>st w2. case CF_Init_subscribe env [CF_CMD_MID env, CF_SEND_HK_MID env, CF_WAKE_UP_MID env]
        st w2 of
      (status, w3) \<Rightarrow> if status \<noteq> CFE_SUCCESS env then (status, w3) else K3 w3)"
  have k2: "fails_fast 2 env w2 (K2 (CFE_SUCCESS env) w2)" for w2
  proof -
    let ?r = "CF_Init_subscribe env [CF_CMD_MID env, CF_SEND_HK_MID env, CF_WAKE_UP_MID env] (CFE_SUCCESS env) w2"
    have "fails_fast 2 env w2 (fst ?r, if fst ?r \<noteq> CFE_SUCCESS env then snd ?r else snd ?r)"
      by (simp only: if_cancel prod.collapse CF_Init_subscribe_fails_fast)
    from fails_fast_bind [where r = ?r and L = "\<lambda>x. x" and K = K3, OF this k3]
    show ?thesis unfolding K2_def .
  qed
  define K1 where "K1 = (\<lambda>w1. case CFE_SB_CreatePipe env w1 of
      (status, w2) \<Rightarrow> if status \<noteq> CFE_SUCCESS env then (status, CFE_ES_WriteToSysLog w2) else K2 status w2)"
  have k1: "fails_fast 2 env w1 (K1 w1)" for w1
  proof -
    let ?r = "CFE_SB_CreatePipe env w1"
    have F: "fails_fast 2 env w1 (fst ?r, if fst ?r \<noteq> CFE_SUCCESS env then CFE_ES_WriteToSysLog (snd ?r) else snd ?r)"
      by (rule fails_fast_call [where lg = "[Call_CFE_ES_WriteToSysLog]" and c = Call_CFE_SB_CreatePipe])
        (simp_all add: CFE_SB_CreatePipe_simps CFE_ES_WriteToSysLog_def log_call_simps)
    have G: "fst ?r = CFE_SUCCESS env \<Longrightarrow> fails_fast 2 env (snd ?r) (K2 (fst ?r) (snd ?r))"
      using k2 [of "snd ?r"] by simp
    from fails_fast_bind [where r = ?r and L = CFE_ES_WriteToSysLog and K = "K2 (fst ?r)", OF F G]
    show ?thesis by (simp add: K1_def split_beta)
  qed
  have "CF_Init env w = K1 w1"
    using st1
    by (simp add: CF_Init_def K1_def K2_def K3_def K4_def K5_def w1_def split_beta Let_def
          del: CF_Init_subscribe.simps)
  moreover have "first_failure env (calls w) [Call_CFE_MSG_Init CF_HK_TLM_MID,
      Call_CFE_MSG_Init CF_CONFIG_TLM_MID, Call_CFE_EVS_Register] = None"
    using step1 by simp
  ultimately show ?thesis
    using fails_fast_prepend [OF k1 [of w1] c1] by simp
qed

lemma CF_AppMain_iteration_eq:
  "CF_AppMain_iteration env w =
     (let cs = calls w @ [Call_CFE_ES_PerfLogExit CF_PERF_ID_APPMAIN,
                          Call_CFE_SB_ReceiveBuffer (cmd_pipe w)];
          status = ret_status env cs;
          msg = out_buffer env cs;
          w3 = w\<lparr>calls := cs @ [Call_CFE_ES_PerfLogEntry CF_PERF_ID_APPMAIN]\<rparr>
      in if (status \<noteq> CFE_SUCCESS env \<and> status \<noteq> CFE_SB_TIME_OUT env) \<or> (status = CFE_SUCCESS env \<and> msg = None)
         then w3\<lparr>run_status := CFE_ES_RunStatus_APP_ERROR,
                 calls := calls w3 @ [Call_CFE_EVS_SendEvent CF_EID_ERR_INIT_MSG_RECV CFE_EVS_EventType_ERROR]\<rparr>
         else (case msg of Some m \<Rightarrow> CF_ProcessMsg env m w3 | None \<Rightarrow> w3))"
  by (simp add: CF_AppMain_iteration_def CFE_ES_PerfLogExit_def CFE_ES_PerfLogEntry_def
        CFE_SB_ReceiveBuffer_def CFE_EVS_SendEvent_def status_call_def log_call_def Let_def
        split: option.split)

lemma CF_Init_load_fails:
  "CF_Init env_load_fails (CFE_ES_PerfLogEntry CF_PERF_ID_APPMAIN w_start) = (5, w_load_failed)"
  by (simp add: CF_Init_def CF_TableInit_def CFE_MSG_Init_def CFE_EVS_Register_def
        CFE_SB_CreatePipe_def CFE_SB_Subscribe_def CFE_TBL_Register_def CFE_TBL_Load_def
        CFE_EVS_SendEvent_def CFE_ES_PerfLogEntry_def status_call_def log_call_def
        env_load_fails_def env_ok_def w_start_def w_load_failed_def failing_def Let_def)

lemma and_0x3ff_dvd: "((x :: 'a::len word) AND 0x3ff) = 0 \<longleftrightarrow> 1024 dvd unat x"
  using and_mask_dvd_nat [of 10 x] by (simp add: mask_eq_exp_minus_1)

lemma CF_ValidateConfigTable_success_iff:
  "CFE_SUCCESS env \<notin> {- 1, - 2, - 3} \<Longrightarrow>
   fst (CF_ValidateConfigTable env tbl w) = CFE_SUCCESS env \<longleftrightarrow>
     ticks_per_second tbl \<noteq> 0 \<and> rx_crc_calc_bytes_per_wakeup tbl \<noteq> 0
     \<and> 1024 dvd unat (rx_crc_calc_bytes_per_wakeup tbl)
     \<and> unat (outgoing_file_chunk_size tbl) \<le> sizeof_pdu_fd_data_t env"
  by (auto simp add: CF_ValidateConfigTable_def and_0x3ff_dvd Let_def)

lemma CF_Timer_Tick_unat: "unat (tick (CF_Timer_Tick t)) = unat (tick t) - 1"
  by (simp add: CF_Timer_Tick_def unat_minus_one unat_eq_0)

lemma CF_Timer_Tick_funpow_unat: "unat (tick ((CF_Timer_Tick ^^ n) t)) = unat (tick t) - n"
  by (induction n) (simp_all add: CF_Timer_Tick_unat)

section \<open>The warm configuration check\<close>

text \<open>
  Claim C1. The warm configuration check makes no call to
  \<^verbatim>\<open>CFE_TBL_ReleaseAddress\<close>, \<^verbatim>\<open>CFE_TBL_Manage\<close> or
  \<^verbatim>\<open>CFE_TBL_GetAddress\<close> when the engine is enabled; when the engine is disabled
  it makes exactly these three calls, in this order, on the configuration table handle.
  This holds for \<^verbatim>\<open>CF_CheckTables\<close> itself and for the dispatch of a
  housekeeping request, which runs it after \<^verbatim>\<open>CF_HkCmd\<close>.
\<close>

theorem CF_CheckTables_gating:
  "filter is_tbl_check_call (new_calls w (CF_CheckTables env w)) =
     (if engine_enabled w then []
      else [Call_CFE_TBL_ReleaseAddress (config_handle w),
            Call_CFE_TBL_Manage (config_handle w),
            Call_CFE_TBL_GetAddress (config_handle w)])
   \<and> (MsgId msg = CF_SEND_HK_MID env \<and> CF_SEND_HK_MID env \<noteq> CF_CMD_MID env
        \<and> CF_SEND_HK_MID env \<noteq> CF_WAKE_UP_MID env \<longrightarrow>
      filter is_tbl_check_call (new_calls w (CF_ProcessMsg env msg w)) =
        (if engine_enabled w then []
         else [Call_CFE_TBL_ReleaseAddress (config_handle w),
               Call_CFE_TBL_Manage (config_handle w),
               Call_CFE_TBL_GetAddress (config_handle w)]))"
proof (intro conjI impI)
  obtain new where new: "calls (CF_CheckTables env w) = calls w @ new"
    "filter is_tbl_check_call new =
     (if engine_enabled w then []
      else [Call_CFE_TBL_ReleaseAddress (config_handle w),
            Call_CFE_TBL_Manage (config_handle w),
            Call_CFE_TBL_GetAddress (config_handle w)])"
    using CF_CheckTables_new_tbl_calls by blast
  show "filter is_tbl_check_call (new_calls w (CF_CheckTables env w)) =
     (if engine_enabled w then []
      else [Call_CFE_TBL_ReleaseAddress (config_handle w),
            Call_CFE_TBL_Manage (config_handle w),
            Call_CFE_TBL_GetAddress (config_handle w)])"
    using new by (simp add: new_calls_append)
next
  assume hk: "MsgId msg = CF_SEND_HK_MID env \<and> CF_SEND_HK_MID env \<noteq> CF_CMD_MID env
        \<and> CF_SEND_HK_MID env \<noteq> CF_WAKE_UP_MID env"
  define w1 where "w1 = CF_HkCmd env (log_call Call_CFE_MSG_GetMsgId w)"
  have pm: "CF_ProcessMsg env msg w = CF_CheckTables env w1"
    using hk by (simp add: CF_ProcessMsg_def CFE_MSG_GetMsgId_def w1_def)
  obtain new where new: "calls (CF_CheckTables env w1) = calls w1 @ new"
    "filter is_tbl_check_call new =
     (if engine_enabled w1 then []
      else [Call_CFE_TBL_ReleaseAddress (config_handle w1),
            Call_CFE_TBL_Manage (config_handle w1),
            Call_CFE_TBL_GetAddress (config_handle w1)])"
    using CF_CheckTables_new_tbl_calls by blast
  have w1: "engine_enabled w1 = engine_enabled w" "config_handle w1 = config_handle w"
    by (simp_all add: w1_def CF_HkCmd_simps log_call_simps)
  obtain pre where pre: "calls w1 = calls w @ pre" "filter is_tbl_check_call pre = []"
    by (simp add: w1_def CF_HkCmd_simps log_call_simps)
  have "new_calls w (CF_ProcessMsg env msg w) = pre @ new"
    using pm new(1) pre(1) by (simp add: new_calls_def)
  then show "filter is_tbl_check_call (new_calls w (CF_ProcessMsg env msg w)) =
        (if engine_enabled w then []
         else [Call_CFE_TBL_ReleaseAddress (config_handle w),
               Call_CFE_TBL_Manage (config_handle w),
               Call_CFE_TBL_GetAddress (config_handle w)])"
    using new(2) pre(2) w1 by simp
qed

theorem CF_CheckTables_gating_witness:
  "MsgId msg_hk = CF_SEND_HK_MID env_ok \<and> CF_SEND_HK_MID env_ok \<noteq> CF_CMD_MID env_ok
   \<and> CF_SEND_HK_MID env_ok \<noteq> CF_WAKE_UP_MID env_ok
   \<and> \<not> engine_enabled w_start
   \<and> filter is_tbl_check_call (new_calls w_start (CF_ProcessMsg env_ok msg_hk w_start)) =
       [Call_CFE_TBL_ReleaseAddress 0, Call_CFE_TBL_Manage 0, Call_CFE_TBL_GetAddress 0]
   \<and> filter is_tbl_check_call
        (new_calls (w_start\<lparr>engine_enabled := True\<rparr>)
           (CF_ProcessMsg env_ok msg_hk (w_start\<lparr>engine_enabled := True\<rparr>))) = []"
  using CF_CheckTables_gating [of w_start env_ok msg_hk]
    CF_CheckTables_gating [of "w_start\<lparr>engine_enabled := True\<rparr>" env_ok msg_hk]
  by (simp add: env_ok_def w_start_def msg_hk_def)

text \<open>
  Claim C10. With the engine disabled the warm configuration check never leaves early:
  the release, the manage and the get-address call are all made, in this order, whatever
  the earlier ones returned. A call that fails is followed by its error event and sets
  the run status to ERROR, and the next call is made all the same.
\<close>

theorem CF_CheckTables_no_short_circuit:
  "\<not> engine_enabled w \<Longrightarrow>
     (let h = config_handle w;
          c1 = calls w @ [Call_CFE_TBL_ReleaseAddress h];
          c2 = (if ret_status env c1 \<noteq> CFE_SUCCESS env
                then c1 @ [Call_CFE_EVS_SendEvent CF_EID_ERR_INIT_TBL_CHECK_REL CFE_EVS_EventType_ERROR]
                else c1) @ [Call_CFE_TBL_Manage h];
          c3 = (if ret_status env c2 \<noteq> CFE_SUCCESS env
                then c2 @ [Call_CFE_EVS_SendEvent CF_EID_ERR_INIT_TBL_CHECK_MAN CFE_EVS_EventType_ERROR]
                else c2) @ [Call_CFE_TBL_GetAddress h];
          c4 = (if ret_status env c3 \<noteq> CFE_SUCCESS env \<and> ret_status env c3 \<noteq> CFE_TBL_INFO_UPDATED env
                then c3 @ [Call_CFE_EVS_SendEvent CF_EID_ERR_INIT_TBL_CHECK_GA CFE_EVS_EventType_ERROR]
                else c3)
      in calls (CF_CheckTables env w) = c4
         \<and> run_status (CF_CheckTables env w) =
             (if ret_status env c1 \<noteq> CFE_SUCCESS env \<or> ret_status env c2 \<noteq> CFE_SUCCESS env
                 \<or> (ret_status env c3 \<noteq> CFE_SUCCESS env \<and> ret_status env c3 \<noteq> CFE_TBL_INFO_UPDATED env)
              then CFE_ES_RunStatus_APP_ERROR else run_status w))"
  using CF_CheckTables_calls[of w env] CF_CheckTables_run_status[of w env]
  by (simp add: Let_def)

theorem CF_CheckTables_no_short_circuit_witness:
  "\<not> engine_enabled w_start
   \<and> calls (CF_CheckTables (env_ok\<lparr>ret_status := failing (\<lambda>c. True)\<rparr>) w_start) =
       [Call_CFE_TBL_ReleaseAddress 0,
        Call_CFE_EVS_SendEvent CF_EID_ERR_INIT_TBL_CHECK_REL CFE_EVS_EventType_ERROR,
        Call_CFE_TBL_Manage 0,
        Call_CFE_EVS_SendEvent CF_EID_ERR_INIT_TBL_CHECK_MAN CFE_EVS_EventType_ERROR,
        Call_CFE_TBL_GetAddress 0,
        Call_CFE_EVS_SendEvent CF_EID_ERR_INIT_TBL_CHECK_GA CFE_EVS_EventType_ERROR]
   \<and> run_status (CF_CheckTables (env_ok\<lparr>ret_status := failing (\<lambda>c. True)\<rparr>) w_start) =
       CFE_ES_RunStatus_APP_ERROR"
  using CF_CheckTables_no_short_circuit [of w_start "env_ok\<lparr>ret_status := failing (\<lambda>c. True)\<rparr>"]
  by (simp add: env_ok_def w_start_def failing_def Let_def)

section \<open>The validation of the configuration table\<close>

text \<open>
  Claim C2. \<^verbatim>\<open>CF_ValidateConfigTable\<close> returns \<^verbatim>\<open>CFE_SUCCESS\<close> if and
  only if \<^verbatim>\<open>ticks_per_second\<close> is not zero, \<^verbatim>\<open>rx_crc_calc_bytes_per_wakeup\<close>
  is not zero and is a multiple of 1024, and \<^verbatim>\<open>outgoing_file_chunk_size\<close> is at
  most \<^verbatim>\<open>sizeof(pdu_fd_data_t)\<close>. In particular 1024 bytes per wake-up with a
  chunk size equal to the capacity is accepted (the ticks being non-zero), 0 and 1000
  bytes per wake-up are rejected, and a chunk size of the capacity plus one is rejected.
  The three error codes of the function are -1, -2 and -3, and
  \<^verbatim>\<open>CFE_SUCCESS\<close> is none of them ("returns anything else on error").
\<close>

theorem CF_ValidateConfigTable_accepts:
  assumes ok: "CFE_SUCCESS env \<notin> {- 1, - 2, - 3}"
  shows
  "(fst (CF_ValidateConfigTable env tbl w) = CFE_SUCCESS env \<longleftrightarrow>
      ticks_per_second tbl \<noteq> 0 \<and> rx_crc_calc_bytes_per_wakeup tbl \<noteq> 0
      \<and> 1024 dvd unat (rx_crc_calc_bytes_per_wakeup tbl)
      \<and> unat (outgoing_file_chunk_size tbl) \<le> sizeof_pdu_fd_data_t env)
   \<and> (ticks_per_second tbl \<noteq> 0 \<and> unat (rx_crc_calc_bytes_per_wakeup tbl) = 1024
        \<and> unat (outgoing_file_chunk_size tbl) = sizeof_pdu_fd_data_t env
      \<longrightarrow> fst (CF_ValidateConfigTable env tbl w) = CFE_SUCCESS env)
   \<and> (unat (rx_crc_calc_bytes_per_wakeup tbl) \<in> {0, 1000}
      \<longrightarrow> fst (CF_ValidateConfigTable env tbl w) \<noteq> CFE_SUCCESS env)
   \<and> (unat (outgoing_file_chunk_size tbl) = sizeof_pdu_fd_data_t env + 1
      \<longrightarrow> fst (CF_ValidateConfigTable env tbl w) \<noteq> CFE_SUCCESS env)"
proof (intro conjI impI)
  show "fst (CF_ValidateConfigTable env tbl w) = CFE_SUCCESS env \<longleftrightarrow>
      ticks_per_second tbl \<noteq> 0 \<and> rx_crc_calc_bytes_per_wakeup tbl \<noteq> 0
      \<and> 1024 dvd unat (rx_crc_calc_bytes_per_wakeup tbl)
      \<and> unat (outgoing_file_chunk_size tbl) \<le> sizeof_pdu_fd_data_t env"
    by (rule CF_ValidateConfigTable_success_iff [OF ok])
next
  assume a: "ticks_per_second tbl \<noteq> 0 \<and> unat (rx_crc_calc_bytes_per_wakeup tbl) = 1024
        \<and> unat (outgoing_file_chunk_size tbl) = sizeof_pdu_fd_data_t env"
  then have "rx_crc_calc_bytes_per_wakeup tbl \<noteq> 0"
    by (metis unat_0 zero_neq_numeral)
  with a show "fst (CF_ValidateConfigTable env tbl w) = CFE_SUCCESS env"
    by (simp add: CF_ValidateConfigTable_success_iff [OF ok])
next
  assume "unat (rx_crc_calc_bytes_per_wakeup tbl) \<in> {0, 1000}"
  then have "rx_crc_calc_bytes_per_wakeup tbl = 0 \<or> \<not> 1024 dvd unat (rx_crc_calc_bytes_per_wakeup tbl)"
    by (auto simp add: unat_eq_0)
  then show "fst (CF_ValidateConfigTable env tbl w) \<noteq> CFE_SUCCESS env"
    by (auto simp add: CF_ValidateConfigTable_success_iff [OF ok])
next
  assume "unat (outgoing_file_chunk_size tbl) = sizeof_pdu_fd_data_t env + 1"
  then show "fst (CF_ValidateConfigTable env tbl w) \<noteq> CFE_SUCCESS env"
    by (simp add: CF_ValidateConfigTable_success_iff [OF ok])
qed

theorem CF_ValidateConfigTable_accepts_witness:
  "CFE_SUCCESS env_ok \<notin> {- 1, - 2, - 3}
   \<and> fst (CF_ValidateConfigTable env_ok (tbl_of 100 1024 480) w_start) = CFE_SUCCESS env_ok
   \<and> fst (CF_ValidateConfigTable env_ok (tbl_of 100 0 480) w_start) \<noteq> CFE_SUCCESS env_ok
   \<and> fst (CF_ValidateConfigTable env_ok (tbl_of 100 1000 480) w_start) \<noteq> CFE_SUCCESS env_ok
   \<and> fst (CF_ValidateConfigTable env_ok (tbl_of 100 1024 481) w_start) \<noteq> CFE_SUCCESS env_ok
   \<and> fst (CF_ValidateConfigTable env_ok (tbl_of 0 1024 480) w_start) \<noteq> CFE_SUCCESS env_ok"
  using CF_ValidateConfigTable_accepts [of env_ok "tbl_of 100 1024 480" w_start]
    CF_ValidateConfigTable_accepts [of env_ok "tbl_of 100 0 480" w_start]
    CF_ValidateConfigTable_accepts [of env_ok "tbl_of 100 1000 480" w_start]
    CF_ValidateConfigTable_accepts [of env_ok "tbl_of 100 1024 481" w_start]
    CF_ValidateConfigTable_accepts [of env_ok "tbl_of 0 1024 480" w_start]
  by (simp add: env_ok_def tbl_of_def)

section \<open>The dispatch of a message\<close>

text \<open>
  Claim C6. A message whose identifier is none of \<^verbatim>\<open>CF_CMD_MID\<close>,
  \<^verbatim>\<open>CF_SEND_HK_MID\<close> and \<^verbatim>\<open>CF_WAKE_UP_MID\<close> adds one to the error counter
  (in the arithmetic of the counter's type, as \<^verbatim>\<open>++\<close> does), sends the error event,
  and changes nothing else: the run status and every other field stay as they were, and
  the only calls made are the read of the message identifier and the event, so neither
  the engine cycle nor the table check runs.
\<close>

theorem CF_ProcessMsg_unknown:
  "MsgId msg \<notin> {CF_CMD_MID env, CF_SEND_HK_MID env, CF_WAKE_UP_MID env} \<Longrightarrow>
   CF_ProcessMsg env msg w =
     w\<lparr>hk := (hk w)\<lparr>counters_err := counters_err (hk w) + 1\<rparr>,
       calls := calls w @ [Call_CFE_MSG_GetMsgId,
                           Call_CFE_EVS_SendEvent CF_EID_ERR_INIT_CMD_LENGTH CFE_EVS_EventType_ERROR]\<rparr>"
  by (simp add: CF_ProcessMsg_def CFE_MSG_GetMsgId_def CFE_EVS_SendEvent_def status_call_def log_call_def)

theorem CF_ProcessMsg_unknown_witness:
  "MsgId msg_other \<notin> {CF_CMD_MID env_ok, CF_SEND_HK_MID env_ok, CF_WAKE_UP_MID env_ok}
   \<and> CF_ProcessMsg env_ok msg_other w_start =
     w_start\<lparr>hk := \<lparr>tlm_time = 0, counters_cmd = 0, counters_err = 1\<rparr>,
       calls := [Call_CFE_MSG_GetMsgId,
                 Call_CFE_EVS_SendEvent CF_EID_ERR_INIT_CMD_LENGTH CFE_EVS_EventType_ERROR]\<rparr>"
  using CF_ProcessMsg_unknown [of msg_other env_ok w_start]
  by (simp add: env_ok_def msg_other_def w_start_def)

text \<open>
  Claim C7. The dispatch of one wake-up message runs the engine cycle exactly once,
  between one \<^verbatim>\<open>CFE_ES_PerfLogEntry\<close> before it and one
  \<^verbatim>\<open>CFE_ES_PerfLogExit\<close> after it, both with the marker
  \<^verbatim>\<open>CF_PERF_ID_CYCLE_ENG\<close>.
\<close>

theorem CF_ProcessMsg_wakeup:
  "MsgId msg = CF_WAKE_UP_MID env \<Longrightarrow> CF_WAKE_UP_MID env \<noteq> CF_CMD_MID env \<Longrightarrow>
   CF_ProcessMsg env msg w =
     (eff_CycleEngine env
        (w\<lparr>calls := calls w @ [Call_CFE_MSG_GetMsgId, Call_CFE_ES_PerfLogEntry CF_PERF_ID_CYCLE_ENG]\<rparr>))
     \<lparr>calls := calls w @ [Call_CFE_MSG_GetMsgId,
                          Call_CFE_ES_PerfLogEntry CF_PERF_ID_CYCLE_ENG,
                          Call_CF_CFDP_CycleEngine,
                          Call_CFE_ES_PerfLogExit CF_PERF_ID_CYCLE_ENG]\<rparr>"
  by (simp add: CF_ProcessMsg_def CF_WakeUp_def CFE_MSG_GetMsgId_def CF_CFDP_CycleEngine_def
        CFE_ES_PerfLogEntry_def CFE_ES_PerfLogExit_def log_call_def)

theorem CF_ProcessMsg_wakeup_witness:
  "MsgId msg_wakeup = CF_WAKE_UP_MID env_ok \<and> CF_WAKE_UP_MID env_ok \<noteq> CF_CMD_MID env_ok
   \<and> CF_ProcessMsg env_ok msg_wakeup w_start =
       w_start\<lparr>calls := [Call_CFE_MSG_GetMsgId,
                          Call_CFE_ES_PerfLogEntry CF_PERF_ID_CYCLE_ENG,
                          Call_CF_CFDP_CycleEngine,
                          Call_CFE_ES_PerfLogExit CF_PERF_ID_CYCLE_ENG]\<rparr>"
  using CF_ProcessMsg_wakeup [of msg_wakeup env_ok w_start]
  by (simp add: env_ok_def msg_wakeup_def w_start_def)

section \<open>The initialisation\<close>

text \<open>
  Claim C5. Once the event filters are registered (step 1), the first failure of a
  step of \<^verbatim>\<open>CF_Init\<close> is a failure of one of the steps 2 to 5, and it is fatal:
  no step is made after the call that failed (only the log entry or the error event
  follows), \<^verbatim>\<open>CF_Init\<close> returns the status of that call,
  \<^verbatim>\<open>CF_AppMain\<close> sets the run status to ERROR, and the run loop ends at its first
  condition check, without a receive and without a dispatch. When no step fails,
  \<^verbatim>\<open>CF_Init\<close> returns \<^verbatim>\<open>CFE_SUCCESS\<close>.
\<close>

theorem CF_Init_failure_is_fatal:
  assumes step1: "ret_status env (calls w @ [Call_CFE_ES_PerfLogEntry CF_PERF_ID_APPMAIN,
      Call_CFE_MSG_Init CF_HK_TLM_MID, Call_CFE_MSG_Init CF_CONFIG_TLM_MID, Call_CFE_EVS_Register])
      = CFE_SUCCESS env"
    and init: "CF_Init env (CFE_ES_PerfLogEntry CF_PERF_ID_APPMAIN w) = (status, w')"
  shows "case first_failure env (calls w) (new_calls w w') of
      None \<Rightarrow> status = CFE_SUCCESS env
    | Some (pre, c, post) \<Rightarrow>
        new_calls w w' = pre @ c # post
        \<and> 2 \<le> init_step c
        \<and> status = ret_status env (calls w @ pre @ [c])
        \<and> status \<noteq> CFE_SUCCESS env
        \<and> list_all (\<lambda>x. init_step x = 0) post
        \<and> CF_AppMain env w =
            Some (w'\<lparr>run_status := CFE_ES_RunStatus_APP_ERROR,
                     calls := calls w' @ [Call_CFE_ES_RunLoop CFE_ES_RunStatus_APP_ERROR,
                                          Call_CFE_ES_PerfLogExit CF_PERF_ID_APPMAIN,
                                          Call_CFE_ES_ExitApp CFE_ES_RunStatus_APP_ERROR]\<rparr>)"
proof -
  let ?wp = "CFE_ES_PerfLogEntry CF_PERF_ID_APPMAIN w"
  have cp: "calls ?wp = calls w @ [Call_CFE_ES_PerfLogEntry CF_PERF_ID_APPMAIN]"
    by (simp add: CFE_ES_PerfLogEntry_def log_call_simps)
  have "fails_fast 2 env ?wp (CF_Init env ?wp)"
    by (rule CF_Init_fails_fast) (simp add: cp step1)
  then have ff: "fails_fast 2 env w (status, w')"
    using fails_fast_prepend [OF _ cp] init by simp
  show ?thesis
  proof (cases "first_failure env (calls w) (new_calls w w')")
    case None
    with ff show ?thesis by (simp add: fails_fast_def)
  next
    case (Some t)
    obtain pre c post where t: "t = (pre, c, post)" by (cases t)
    from ff Some t have st: "status = ret_status env (calls w @ pre @ [c])"
      and k: "2 \<le> init_step c" and post: "list_all (\<lambda>x. init_step x = 0) post"
      by (simp_all add: fails_fast_def)
    from first_failure_failed Some t have "step_failed env c (ret_status env (calls w @ pre @ [c]))"
      by blast
    with st have ne: "status \<noteq> CFE_SUCCESS env"
      by (auto dest: step_failed_not_success)
    from first_failure_decomp Some t have dec: "new_calls w w' = pre @ c # post"
      by blast
    from CF_AppMain_init_failed [OF init ne] Some t st k post ne dec
    show ?thesis by simp
  qed
qed

theorem CF_Init_failure_is_fatal_witness:
  "ret_status env_load_fails
     (calls w_start @ [Call_CFE_ES_PerfLogEntry CF_PERF_ID_APPMAIN,
        Call_CFE_MSG_Init CF_HK_TLM_MID, Call_CFE_MSG_Init CF_CONFIG_TLM_MID, Call_CFE_EVS_Register])
     = CFE_SUCCESS env_ok
   \<and> CF_Init env_load_fails
        (CFE_ES_PerfLogEntry CF_PERF_ID_APPMAIN w_start) = (5, w_load_failed)
   \<and> first_failure env_load_fails
        (calls w_start) (new_calls w_start w_load_failed) =
      Some ([Call_CFE_ES_PerfLogEntry CF_PERF_ID_APPMAIN,
             Call_CFE_MSG_Init CF_HK_TLM_MID, Call_CFE_MSG_Init CF_CONFIG_TLM_MID,
             Call_CFE_EVS_Register, Call_CFE_SB_CreatePipe,
             Call_CFE_SB_Subscribe 0x18B3 7, Call_CFE_SB_Subscribe 0x18B4 7,
             Call_CFE_SB_Subscribe 0x18B5 7, Call_CFE_TBL_Register],
            Call_CFE_TBL_Load 3,
            [Call_CFE_EVS_SendEvent CF_EID_ERR_INIT_TBL_LOAD CFE_EVS_EventType_ERROR])
   \<and> CF_AppMain env_load_fails w_start =
       Some (w_load_failed\<lparr>run_status := CFE_ES_RunStatus_APP_ERROR,
               calls := calls w_load_failed @ [Call_CFE_ES_RunLoop CFE_ES_RunStatus_APP_ERROR,
                                          Call_CFE_ES_PerfLogExit CF_PERF_ID_APPMAIN,
                                          Call_CFE_ES_ExitApp CFE_ES_RunStatus_APP_ERROR]\<rparr>)"
  using CF_Init_failure_is_fatal
    [of env_load_fails w_start 5 w_load_failed]
  by (simp add: CF_Init_load_fails)
     (simp add: env_load_fails_def env_ok_def w_start_def w_load_failed_def failing_def new_calls_def)

text \<open>
  Claim C3, as the code has it. When registering the event filters (step 1) fails,
  \<^verbatim>\<open>CF_Init\<close> writes to the system log and returns the failing status at once:
  none of the later steps is made. \<^verbatim>\<open>CF_AppMain\<close> then sets the run status to
  ERROR and leaves the run loop at its first condition check.
\<close>

theorem CF_Init_evs_register_failure_aborts:
  assumes "ret_status env (calls w @ [Call_CFE_ES_PerfLogEntry CF_PERF_ID_APPMAIN,
      Call_CFE_MSG_Init CF_HK_TLM_MID, Call_CFE_MSG_Init CF_CONFIG_TLM_MID, Call_CFE_EVS_Register])
      \<noteq> CFE_SUCCESS env"
  shows "CF_Init env (CFE_ES_PerfLogEntry CF_PERF_ID_APPMAIN w) =
      (ret_status env (calls w @ [Call_CFE_ES_PerfLogEntry CF_PERF_ID_APPMAIN,
         Call_CFE_MSG_Init CF_HK_TLM_MID, Call_CFE_MSG_Init CF_CONFIG_TLM_MID, Call_CFE_EVS_Register]),
       w\<lparr>run_status := CFE_ES_RunStatus_APP_RUN,
         calls := calls w @ [Call_CFE_ES_PerfLogEntry CF_PERF_ID_APPMAIN,
                             Call_CFE_MSG_Init CF_HK_TLM_MID, Call_CFE_MSG_Init CF_CONFIG_TLM_MID,
                             Call_CFE_EVS_Register, Call_CFE_ES_WriteToSysLog]\<rparr>)
    \<and> CF_AppMain env w =
      Some (w\<lparr>run_status := CFE_ES_RunStatus_APP_ERROR,
               calls := calls w @ [Call_CFE_ES_PerfLogEntry CF_PERF_ID_APPMAIN,
                                   Call_CFE_MSG_Init CF_HK_TLM_MID, Call_CFE_MSG_Init CF_CONFIG_TLM_MID,
                                   Call_CFE_EVS_Register, Call_CFE_ES_WriteToSysLog,
                                   Call_CFE_ES_RunLoop CFE_ES_RunStatus_APP_ERROR,
                                   Call_CFE_ES_PerfLogExit CF_PERF_ID_APPMAIN,
                                   Call_CFE_ES_ExitApp CFE_ES_RunStatus_APP_ERROR]\<rparr>)"
proof -
  let ?wp = "CFE_ES_PerfLogEntry CF_PERF_ID_APPMAIN w"
  let ?st = "ret_status env (calls w @ [Call_CFE_ES_PerfLogEntry CF_PERF_ID_APPMAIN,
         Call_CFE_MSG_Init CF_HK_TLM_MID, Call_CFE_MSG_Init CF_CONFIG_TLM_MID, Call_CFE_EVS_Register])"
  have f: "ret_status env (calls ?wp @ [Call_CFE_MSG_Init CF_HK_TLM_MID,
      Call_CFE_MSG_Init CF_CONFIG_TLM_MID, Call_CFE_EVS_Register]) \<noteq> CFE_SUCCESS env"
    using assms by (simp add: CFE_ES_PerfLogEntry_def log_call_simps)
  have i: "CF_Init env ?wp =
      (?st,
       w\<lparr>run_status := CFE_ES_RunStatus_APP_RUN,
         calls := calls w @ [Call_CFE_ES_PerfLogEntry CF_PERF_ID_APPMAIN,
                             Call_CFE_MSG_Init CF_HK_TLM_MID, Call_CFE_MSG_Init CF_CONFIG_TLM_MID,
                             Call_CFE_EVS_Register, Call_CFE_ES_WriteToSysLog]\<rparr>)"
    unfolding CF_Init_evs_register_fails [OF f]
    by (simp add: CFE_ES_PerfLogEntry_def log_call_def)
  from CF_AppMain_init_failed [OF i assms] i show ?thesis
    by simp
qed

theorem CF_Init_evs_register_failure_aborts_witness:
  "ret_status env_evs_register_fails
     (calls w_start @ [Call_CFE_ES_PerfLogEntry CF_PERF_ID_APPMAIN, Call_CFE_MSG_Init CF_HK_TLM_MID,
        Call_CFE_MSG_Init CF_CONFIG_TLM_MID, Call_CFE_EVS_Register]) \<noteq> CFE_SUCCESS env_ok
   \<and> CF_Init env_evs_register_fails
        (CFE_ES_PerfLogEntry CF_PERF_ID_APPMAIN w_start) =
      (5, w_start\<lparr>calls := [Call_CFE_ES_PerfLogEntry CF_PERF_ID_APPMAIN,
                             Call_CFE_MSG_Init CF_HK_TLM_MID, Call_CFE_MSG_Init CF_CONFIG_TLM_MID,
                             Call_CFE_EVS_Register, Call_CFE_ES_WriteToSysLog]\<rparr>)
   \<and> CF_AppMain env_evs_register_fails w_start =
      Some (w_start\<lparr>run_status := CFE_ES_RunStatus_APP_ERROR,
               calls := [Call_CFE_ES_PerfLogEntry CF_PERF_ID_APPMAIN,
                         Call_CFE_MSG_Init CF_HK_TLM_MID, Call_CFE_MSG_Init CF_CONFIG_TLM_MID,
                         Call_CFE_EVS_Register, Call_CFE_ES_WriteToSysLog,
                         Call_CFE_ES_RunLoop CFE_ES_RunStatus_APP_ERROR,
                         Call_CFE_ES_PerfLogExit CF_PERF_ID_APPMAIN,
                         Call_CFE_ES_ExitApp CFE_ES_RunStatus_APP_ERROR]\<rparr>)"
  using CF_Init_evs_register_failure_aborts
    [of env_evs_register_fails w_start]
  by (simp add: env_evs_register_fails_def env_ok_def w_start_def failing_def)

text \<open>
  Claim C3, as the spec states it, fails: in a run where only the registration of the
  event filters fails, \<^verbatim>\<open>CF_Init\<close> returns a failure, makes no call after the
  log entry (no pipe is created), and \<^verbatim>\<open>CF_AppMain\<close> ends with the run status
  ERROR.
\<close>

theorem CF_Init_evs_register_failure_counterexample:
  "fst (CF_Init env_evs_register_fails 
          (CFE_ES_PerfLogEntry CF_PERF_ID_APPMAIN w_start)) \<noteq> CFE_SUCCESS env_evs_register_fails
   \<and> calls (snd (CF_Init env_evs_register_fails
          (CFE_ES_PerfLogEntry CF_PERF_ID_APPMAIN w_start))) =
       [Call_CFE_ES_PerfLogEntry CF_PERF_ID_APPMAIN, Call_CFE_MSG_Init CF_HK_TLM_MID,
        Call_CFE_MSG_Init CF_CONFIG_TLM_MID, Call_CFE_EVS_Register, Call_CFE_ES_WriteToSysLog]
   \<and> map_option run_status
         (CF_AppMain env_evs_register_fails w_start)
       = Some CFE_ES_RunStatus_APP_ERROR"
proof -
  let ?env = env_evs_register_fails
  let ?wp = "CFE_ES_PerfLogEntry CF_PERF_ID_APPMAIN w_start"
  have f: "ret_status ?env (calls ?wp @ [Call_CFE_MSG_Init CF_HK_TLM_MID,
      Call_CFE_MSG_Init CF_CONFIG_TLM_MID, Call_CFE_EVS_Register]) \<noteq> CFE_SUCCESS env_evs_register_fails"
    by (simp add: env_evs_register_fails_def env_ok_def failing_def)
  note i = CF_Init_evs_register_fails [OF f]
  have ne: "fst (CF_Init ?env ?wp) \<noteq> CFE_SUCCESS env_evs_register_fails"
    using f by (simp add: i)
  have "CF_Init ?env ?wp = (fst (CF_Init ?env ?wp), snd (CF_Init ?env ?wp))"
    by simp
  from CF_AppMain_init_failed [OF this ne]
  have "map_option run_status (CF_AppMain ?env w_start) = Some CFE_ES_RunStatus_APP_ERROR"
    by simp
  moreover have "calls (snd (CF_Init ?env ?wp)) =
       [Call_CFE_ES_PerfLogEntry CF_PERF_ID_APPMAIN, Call_CFE_MSG_Init CF_HK_TLM_MID,
        Call_CFE_MSG_Init CF_CONFIG_TLM_MID, Call_CFE_EVS_Register, Call_CFE_ES_WriteToSysLog]"
    unfolding i by (simp add: CFE_ES_PerfLogEntry_def log_call_def w_start_def)
  ultimately show ?thesis using ne by simp
qed

section \<open>The run loop\<close>




text \<open>
  Claim C9. A receive that returns \<^verbatim>\<open>CFE_SUCCESS\<close> with a null buffer ends as
  a receive error does: the error event is sent, the run status becomes ERROR, nothing
  is dispatched, and the loop started from that state ends at its condition check.
\<close>

theorem CF_AppMain_iteration_null_buffer:
  "(let cs = calls w @ [Call_CFE_ES_PerfLogExit CF_PERF_ID_APPMAIN,
                        Call_CFE_SB_ReceiveBuffer (cmd_pipe w)];
        w_err = w\<lparr>run_status := CFE_ES_RunStatus_APP_ERROR,
                  calls := cs @ [Call_CFE_ES_PerfLogEntry CF_PERF_ID_APPMAIN,
                                 Call_CFE_EVS_SendEvent CF_EID_ERR_INIT_MSG_RECV CFE_EVS_EventType_ERROR]\<rparr>
    in ret_status env cs = CFE_SUCCESS env \<and> out_buffer env cs = None
       \<longrightarrow> CF_AppMain_iteration env w = w_err
           \<and> CF_AppMain_loop env w_err =
               Some (w_err\<lparr>calls := calls w_err @ [Call_CFE_ES_RunLoop CFE_ES_RunStatus_APP_ERROR]\<rparr>))"
  by (auto simp add: CF_AppMain_iteration_eq Let_def CF_AppMain_loop_stop log_call_def)

theorem CF_AppMain_iteration_null_buffer_witness:
  "ret_status (env_ok\<lparr>ret_status := (\<lambda>cs. 0)\<rparr>)
     (calls w_start @ [Call_CFE_ES_PerfLogExit CF_PERF_ID_APPMAIN,
        Call_CFE_SB_ReceiveBuffer (cmd_pipe w_start)]) = CFE_SUCCESS env_ok
   \<and> out_buffer (env_ok\<lparr>ret_status := (\<lambda>cs. 0)\<rparr>)
     (calls w_start @ [Call_CFE_ES_PerfLogExit CF_PERF_ID_APPMAIN,
        Call_CFE_SB_ReceiveBuffer (cmd_pipe w_start)]) = None
   \<and> CF_AppMain_iteration (env_ok\<lparr>ret_status := (\<lambda>cs. 0)\<rparr>) w_start =
       w_start\<lparr>run_status := CFE_ES_RunStatus_APP_ERROR,
         calls := [Call_CFE_ES_PerfLogExit CF_PERF_ID_APPMAIN, Call_CFE_SB_ReceiveBuffer 0,
                   Call_CFE_ES_PerfLogEntry CF_PERF_ID_APPMAIN,
                   Call_CFE_EVS_SendEvent CF_EID_ERR_INIT_MSG_RECV CFE_EVS_EventType_ERROR]\<rparr>
   \<and> CF_AppMain_loop (env_ok\<lparr>ret_status := (\<lambda>cs. 0)\<rparr>)
        (CF_AppMain_iteration (env_ok\<lparr>ret_status := (\<lambda>cs. 0)\<rparr>) w_start) =
       Some (w_start\<lparr>run_status := CFE_ES_RunStatus_APP_ERROR,
         calls := [Call_CFE_ES_PerfLogExit CF_PERF_ID_APPMAIN, Call_CFE_SB_ReceiveBuffer 0,
                   Call_CFE_ES_PerfLogEntry CF_PERF_ID_APPMAIN,
                   Call_CFE_EVS_SendEvent CF_EID_ERR_INIT_MSG_RECV CFE_EVS_EventType_ERROR,
                   Call_CFE_ES_RunLoop CFE_ES_RunStatus_APP_ERROR]\<rparr>)"
  using CF_AppMain_iteration_null_buffer [of w_start "env_ok\<lparr>ret_status := (\<lambda>cs. 0)\<rparr>"]
  by (simp add: env_ok_def w_start_def Let_def)

section \<open>The timer\<close>

text \<open>
  Claim C8. Any number of ticks takes the counter of a timer down by that number and
  never past 0: ticking an expired timer leaves it as it is, and a timer that has
  expired stays expired under further ticks.
\<close>

theorem CF_Timer_Tick_floor:
  "unat (tick ((CF_Timer_Tick ^^ n) t)) = unat (tick t) - n
   \<and> (CF_Timer_Expired t \<longrightarrow> CF_Timer_Tick t = t)
   \<and> (CF_Timer_Expired ((CF_Timer_Tick ^^ m) t) \<longrightarrow> CF_Timer_Expired ((CF_Timer_Tick ^^ (m + n)) t))"
proof (intro conjI impI)
  show "unat (tick ((CF_Timer_Tick ^^ n) t)) = unat (tick t) - n"
    by (rule CF_Timer_Tick_funpow_unat)
  show "CF_Timer_Tick t = t" if "CF_Timer_Expired t"
    using that by (simp add: CF_Timer_Tick_def CF_Timer_Expired_def)
  show "CF_Timer_Expired ((CF_Timer_Tick ^^ (m + n)) t)" if "CF_Timer_Expired ((CF_Timer_Tick ^^ m) t)"
  proof -
    from that have "unat (tick ((CF_Timer_Tick ^^ m) t)) = 0"
      by (simp add: CF_Timer_Expired_def)
    then have "unat (tick t) - m = 0"
      by (simp add: CF_Timer_Tick_funpow_unat)
    then have "unat (tick ((CF_Timer_Tick ^^ (m + n)) t)) = 0"
      by (simp add: CF_Timer_Tick_funpow_unat)
    then show ?thesis
      by (simp add: CF_Timer_Expired_def unat_eq_0)
  qed
qed

theorem CF_Timer_Tick_floor_witness:
  "unat (tick ((CF_Timer_Tick ^^ 5) \<lparr>tick = 2\<rparr>)) = 0
   \<and> CF_Timer_Expired \<lparr>tick = 0\<rparr> \<and> CF_Timer_Tick \<lparr>tick = 0\<rparr> = \<lparr>tick = 0\<rparr>
   \<and> CF_Timer_Expired ((CF_Timer_Tick ^^ 2) \<lparr>tick = 2\<rparr>)
   \<and> CF_Timer_Expired ((CF_Timer_Tick ^^ (2 + 3)) \<lparr>tick = 2\<rparr>)"
  using CF_Timer_Tick_floor [of 5 "\<lparr>tick = 2\<rparr>" 2] CF_Timer_Tick_floor [of 3 "\<lparr>tick = 0\<rparr>" 0]
    CF_Timer_Tick_floor [of 3 "\<lparr>tick = 2\<rparr>" 2]
  by (simp add: CF_Timer_Expired_def CF_Timer_Tick_def numeral_2_eq_2)

end
